theory Spec2Isabelle
  imports Main "HOL-Library.Word" "HOL-Library.Sublist"
begin

section \<open>Values, errors and byte orders\<close>

type_synonym byte = "8 word"

text \<open>
  The Python values that travel through the codec: \<open>None\<close>, booleans, unbounded integers,
  \<open>bytes\<close> and lists of these. Floating-point values are outside the model.
\<close>

datatype val = VNone | VBool bool | VInt int | VBytes "byte list" | VList "val list"

text \<open>
  Python compares \<open>True == 1\<close> and \<open>False == 0\<close>; \<open>py_norm\<close> maps a value to the
  representative of its \<open>==\<close> class, and \<open>py_in\<close> is the operator \<open>in\<close> on a tuple.
\<close>

fun py_norm :: "val \<Rightarrow> val" where
  "py_norm (VBool b) = VInt (if b then 1 else 0)"
| "py_norm (VList xs) = VList (map py_norm xs)"
| "py_norm v = v"

definition py_eq :: "val \<Rightarrow> val \<Rightarrow> bool" where
  "py_eq a b = (py_norm a = py_norm b)"

definition py_in :: "val \<Rightarrow> val list \<Rightarrow> bool" where
  "py_in v xs = list_ex (py_eq v) xs"

fun truthy :: "val \<Rightarrow> bool" where
  "truthy VNone = False"
| "truthy (VBool b) = b"
| "truthy (VInt i) = (i \<noteq> 0)"
| "truthy (VBytes bs) = (bs \<noteq> [])"
| "truthy (VList xs) = (xs \<noteq> [])"

text \<open>
  What a \<open>ValueError\<close> of the library reports. \<open>NotFilled\<close> carries the text joined from
  the outstanding reservation names, as \<open>BinaryWriter.__bytes__\<close> builds it.
\<close>

datatype reason =
    AlreadyReserved string
  | NotReserved string
  | NotReservedBy string string
  | NoValues
  | FillPackFailed string "val list"
  | NotFilled string
  | BitValueTooLarge int int
  | NewBitFieldExceeded
  | PoppedTooLarge int string
  | NotAsserted val "val list"
  | VarintsUnset
  | CannotFill "string list"
  | OutOfBytes
  | CouldNotUnpack nat string
  | InvalidLiteral string
  | InvalidFormatSpec
  | MoreThanOneValue

datatype error =
    ValueError reason
  | BinaryFieldValueError val "val list"
  | StructError
  | FloatUnmodelled
  | IndexError
  | TypeError
  | KeyError
  | ZeroDivisionError
  | NoReturn
  | HookError

datatype ByteOrder = NativeAutoAligned | NativeNotAutoAligned | LittleEndian | BigEndian | Network

fun value_of :: "ByteOrder \<Rightarrow> string" where
  "value_of NativeAutoAligned = ''@''"
| "value_of NativeNotAutoAligned = ''=''"
| "value_of LittleEndian = ''<''"
| "value_of BigEndian = ''>''"
| "value_of Network = ''!''"

section \<open>The \<open>struct\<close> module\<close>

text \<open>
  Python's \<open>struct\<close> for the format codes the library's primitive table uses
  (\<open>? B b H h I i Q q f d\<close>), byte strings \<open>s\<close> and pad bytes \<open>x\<close>. A format is an optional
  mode character followed by tokens, each an optional decimal repeat count and a code.
  Mode \<open>@\<close> (also the mode of a format with no mode character) aligns every item to its
  size and uses the machine's byte order, taken little-endian here with the item sizes of
  the LP64 ABIs, where they equal the standard sizes of the other modes. The floating-point
  codes have a size, but packing and unpacking them is not modelled.
\<close>

definition is_digit :: "char \<Rightarrow> bool" where
  "is_digit c = (c \<in> set ''0123456789'')"

definition digit_val :: "char \<Rightarrow> nat" where
  "digit_val c = of_char c - 48"

definition is_space :: "char \<Rightarrow> bool" where
  "is_space c = (c \<in> {CHR '' '', CHR 0x09, CHR 0x0A, CHR 0x0B, CHR 0x0C, CHR 0x0D})"

definition code_size :: "char \<Rightarrow> nat option" where
  "code_size c =
     (if c \<in> set ''xsBb?'' then Some 1
      else if c \<in> set ''Hh'' then Some 2
      else if c \<in> set ''Iif'' then Some 4
      else if c \<in> set ''Qqd'' then Some 8
      else None)"

type_synonym token = "nat option \<times> char"

fun tokens :: "string \<Rightarrow> nat option \<Rightarrow> error + token list" where
  "tokens [] None = Inr []"
| "tokens [] (Some n) = Inl StructError"
| "tokens (c # cs) acc =
     (if is_digit c
      then tokens cs (Some (10 * (case acc of None \<Rightarrow> 0 | Some n \<Rightarrow> n) + digit_val c))
      else if is_space c \<and> acc = None then tokens cs None
      else if code_size c = None then Inl StructError
      else (case tokens cs None of
              Inl e \<Rightarrow> Inl e
            | Inr ts \<Rightarrow> Inr ((acc, c) # ts)))"

text \<open>The mode of a format: (aligned, big-endian), and the format without its mode character.\<close>

fun split_mode :: "string \<Rightarrow> (bool \<times> bool) \<times> string" where
  "split_mode [] = ((True, False), [])"
| "split_mode (c # cs) =
     (if c = CHR ''@'' then ((True, False), cs)
      else if c = CHR ''='' then ((False, False), cs)
      else if c = CHR ''<'' then ((False, False), cs)
      else if c = CHR ''>'' then ((False, True), cs)
      else if c = CHR ''!'' then ((False, True), cs)
      else ((True, False), c # cs))"

definition count_of :: "nat option \<Rightarrow> nat" where
  "count_of cnt = (case cnt of None \<Rightarrow> 1 | Some k \<Rightarrow> k)"

definition item_size :: "char \<Rightarrow> nat" where
  "item_size c = (case code_size c of None \<Rightarrow> 0 | Some k \<Rightarrow> k)"

definition align_pad :: "bool \<Rightarrow> nat \<Rightarrow> char \<Rightarrow> nat" where
  "align_pad al off c =
     (if al \<and> off mod item_size c \<noteq> 0 then item_size c - off mod item_size c else 0)"

fun size_tokens :: "bool \<Rightarrow> token list \<Rightarrow> nat \<Rightarrow> nat" where
  "size_tokens al [] off = off"
| "size_tokens al ((cnt, c) # ts) off =
     size_tokens al ts (off + align_pad al off c + count_of cnt * item_size c)"

definition struct_calcsize :: "string \<Rightarrow> error + nat" where
  "struct_calcsize fmt =
     (case split_mode fmt of ((al, be), body) \<Rightarrow>
        (case tokens body None of
           Inl e \<Rightarrow> Inl e
         | Inr ts \<Rightarrow> Inr (size_tokens al ts 0)))"

text \<open>Integers on the wire: \<open>n\<close> bytes, two's complement when signed.\<close>

definition le_bytes :: "nat \<Rightarrow> int \<Rightarrow> byte list" where
  "le_bytes n x = map (\<lambda>i. word_of_int (x div 256 ^ i)) [0..<n]"

definition int_bytes :: "bool \<Rightarrow> nat \<Rightarrow> int \<Rightarrow> byte list" where
  "int_bytes be n x = (if be then rev (le_bytes n x) else le_bytes n x)"

definition le_uint :: "byte list \<Rightarrow> int" where
  "le_uint bs = foldr (\<lambda>b acc. uint b + 256 * acc) bs 0"

definition bytes_uint :: "bool \<Rightarrow> byte list \<Rightarrow> int" where
  "bytes_uint be bs = le_uint (if be then rev bs else bs)"

definition bytes_sint :: "bool \<Rightarrow> byte list \<Rightarrow> int" where
  "bytes_sint be bs =
     (let u = bytes_uint be bs
      in if 2 * u \<ge> 256 ^ length bs then u - 256 ^ length bs else u)"

definition is_signed :: "char \<Rightarrow> bool" where
  "is_signed c = (c \<in> set ''bhiq'')"

definition is_float :: "char \<Rightarrow> bool" where
  "is_float c = (c \<in> set ''fd'')"

definition int_in_range :: "char \<Rightarrow> int \<Rightarrow> bool" where
  "int_in_range c x =
     (if is_signed c then - (2 ^ (8 * item_size c - 1)) \<le> x \<and> x < 2 ^ (8 * item_size c - 1)
      else 0 \<le> x \<and> x < 2 ^ (8 * item_size c))"

fun pack_int :: "bool \<Rightarrow> char \<Rightarrow> int \<Rightarrow> error + byte list" where
  "pack_int be c x =
     (if int_in_range c x then Inr (int_bytes be (item_size c) x) else Inl StructError)"

fun pack_item :: "bool \<Rightarrow> char \<Rightarrow> val \<Rightarrow> error + byte list" where
  "pack_item be c v =
     (if c = CHR ''?'' then Inr [if truthy v then 1 else 0]
      else if is_float c then Inl FloatUnmodelled
      else (case v of
              VInt x \<Rightarrow> pack_int be c x
            | VBool b \<Rightarrow> pack_int be c (if b then 1 else 0)
            | _ \<Rightarrow> Inl StructError))"

fun pack_items :: "bool \<Rightarrow> char \<Rightarrow> val list \<Rightarrow> error + byte list" where
  "pack_items be c [] = Inr []"
| "pack_items be c (v # vs) =
     (case pack_item be c v of
        Inl e \<Rightarrow> Inl e
      | Inr bs \<Rightarrow> (case pack_items be c vs of Inl e \<Rightarrow> Inl e | Inr rest \<Rightarrow> Inr (bs @ rest)))"

definition pad_to :: "nat \<Rightarrow> byte list \<Rightarrow> byte list" where
  "pad_to n bs = take n bs @ replicate (n - length bs) 0"

fun pack_tokens :: "bool \<Rightarrow> bool \<Rightarrow> token list \<Rightarrow> val list \<Rightarrow> nat \<Rightarrow> error + byte list" where
  "pack_tokens al be [] vals off = (if vals = [] then Inr [] else Inl StructError)"
| "pack_tokens al be ((cnt, c) # ts) vals off =
     (let n = count_of cnt; pad = align_pad al off c
      in if c = CHR ''x'' then
           (case pack_tokens al be ts vals (off + pad + n) of
              Inl e \<Rightarrow> Inl e
            | Inr out \<Rightarrow> Inr (replicate pad 0 @ replicate n 0 @ out))
         else if c = CHR ''s'' then
           (case vals of
              VBytes bs # rest \<Rightarrow>
                (case pack_tokens al be ts rest (off + pad + n) of
                   Inl e \<Rightarrow> Inl e
                 | Inr out \<Rightarrow> Inr (replicate pad 0 @ pad_to n bs @ out))
            | _ \<Rightarrow> Inl StructError)
         else if length vals < n then Inl StructError
         else
           (case pack_items be c (take n vals) of
              Inl e \<Rightarrow> Inl e
            | Inr body \<Rightarrow>
                (case pack_tokens al be ts (drop n vals) (off + pad + length body) of
                   Inl e \<Rightarrow> Inl e
                 | Inr out \<Rightarrow> Inr (replicate pad 0 @ body @ out))))"

definition struct_pack :: "string \<Rightarrow> val list \<Rightarrow> error + byte list" where
  "struct_pack fmt vals =
     (case split_mode fmt of ((al, be), body) \<Rightarrow>
        (case tokens body None of
           Inl e \<Rightarrow> Inl e
         | Inr ts \<Rightarrow> pack_tokens al be ts vals 0))"

fun unpack_item :: "bool \<Rightarrow> char \<Rightarrow> byte list \<Rightarrow> error + val" where
  "unpack_item be c bs =
     (if c = CHR ''?'' then Inr (VBool (bs \<noteq> [0]))
      else if is_float c then Inl FloatUnmodelled
      else if is_signed c then Inr (VInt (bytes_sint be bs))
      else Inr (VInt (bytes_uint be bs)))"

fun unpack_items :: "bool \<Rightarrow> char \<Rightarrow> nat \<Rightarrow> byte list \<Rightarrow> error + val list" where
  "unpack_items be c 0 bs = Inr []"
| "unpack_items be c (Suc k) bs =
     (case unpack_item be c (take (item_size c) bs) of
        Inl e \<Rightarrow> Inl e
      | Inr v \<Rightarrow>
          (case unpack_items be c k (drop (item_size c) bs) of
             Inl e \<Rightarrow> Inl e
           | Inr vs \<Rightarrow> Inr (v # vs)))"

fun unpack_tokens :: "bool \<Rightarrow> bool \<Rightarrow> token list \<Rightarrow> byte list \<Rightarrow> nat \<Rightarrow> error + val list" where
  "unpack_tokens al be [] bs off = Inr []"
| "unpack_tokens al be ((cnt, c) # ts) bs off =
     (let n = count_of cnt; pad = align_pad al off c; body = drop pad bs
      in if c = CHR ''x'' then unpack_tokens al be ts (drop n body) (off + pad + n)
         else if c = CHR ''s'' then
           (case unpack_tokens al be ts (drop n body) (off + pad + n) of
              Inl e \<Rightarrow> Inl e
            | Inr vs \<Rightarrow> Inr (VBytes (take n body) # vs))
         else
           (case unpack_items be c n body of
              Inl e \<Rightarrow> Inl e
            | Inr items \<Rightarrow>
                (case unpack_tokens al be ts (drop (n * item_size c) body)
                        (off + pad + n * item_size c) of
                   Inl e \<Rightarrow> Inl e
                 | Inr vs \<Rightarrow> Inr (items @ vs))))"

definition struct_unpack :: "string \<Rightarrow> byte list \<Rightarrow> error + val list" where
  "struct_unpack fmt bs =
     (case split_mode fmt of ((al, be), body) \<Rightarrow>
        (case tokens body None of
           Inl e \<Rightarrow> Inl e
         | Inr ts \<Rightarrow>
             if length bs \<noteq> size_tokens al ts 0 then Inl StructError
             else unpack_tokens al be ts bs 0))"


section \<open>\<open>streams/base.py\<close>: the format context shared by readers and writers\<close>

record BinaryBase =
  default_byte_order :: ByteOrder
  long_varints :: "bool option"

definition replace_char :: "char \<Rightarrow> char \<Rightarrow> string \<Rightarrow> string" where
  "replace_char a b s = map (\<lambda>c. if c = a then b else c) s"

text \<open>
  \<open>parse_fmt\<close> reads \<open>fmt[0]\<close>, an \<open>IndexError\<close> on the empty format, and tests the flag
  by truth value, so an unset flag selects the short codes like \<open>False\<close> does.
\<close>

definition resolve_varints :: "bool option \<Rightarrow> string \<Rightarrow> string" where
  "resolve_varints lv fm =
     (if lv = Some True
      then replace_char CHR ''V'' CHR ''Q'' (replace_char CHR ''v'' CHR ''q'' fm)
      else replace_char CHR ''V'' CHR ''I'' (replace_char CHR ''v'' CHR ''i'' fm))"

definition parse_fmt :: "'a BinaryBase_scheme \<Rightarrow> string \<Rightarrow> error + string" where
  "parse_fmt b fm =
     (case fm of
        [] \<Rightarrow> Inl IndexError
      | c # _ \<Rightarrow>
          Inr (resolve_varints (long_varints b)
                 (if c \<notin> set ''@=><!'' then value_of (default_byte_order b) @ fm else fm)))"

definition calcsize :: "'a BinaryBase_scheme \<Rightarrow> string \<Rightarrow> error + nat" where
  "calcsize b fm = (case parse_fmt b fm of Inl e \<Rightarrow> Inl e | Inr f \<Rightarrow> struct_calcsize f)"

section \<open>\<open>streams/writer.py\<close>: the write buffer and its reservation ledger\<close>

text \<open>
  \<open>reserved\<close> is a Python dict from names to (offset, format): an association list in
  insertion order, read and written through \<open>dict_get\<close>, \<open>dict_set\<close> and \<open>dict_pop\<close>.
\<close>

record BinaryWriter = BinaryBase +
  array :: "byte list"
  reserved :: "(string \<times> nat \<times> string) list"

definition dict_keys :: "('k \<times> 'v) list \<Rightarrow> 'k list" where
  "dict_keys d = map fst d"

definition dict_get :: "('k \<times> 'v) list \<Rightarrow> 'k \<Rightarrow> 'v option" where
  "dict_get d k = map_of d k"

fun dict_set :: "('k \<times> 'v) list \<Rightarrow> 'k \<Rightarrow> 'v \<Rightarrow> ('k \<times> 'v) list" where
  "dict_set [] k v = [(k, v)]"
| "dict_set ((k', v') # d) k v = (if k' = k then (k, v) # d else (k', v') # dict_set d k v)"

definition dict_pop :: "('k \<times> 'v) list \<Rightarrow> 'k \<Rightarrow> ('k \<times> 'v) list" where
  "dict_pop d k = filter (\<lambda>kv. fst kv \<noteq> k) d"

definition new_writer :: "ByteOrder \<Rightarrow> bool option \<Rightarrow> BinaryWriter" where
  "new_writer bo lv =
     \<lparr>default_byte_order = bo, long_varints = lv, array = [], reserved = []\<rparr>"

definition position :: "BinaryWriter \<Rightarrow> nat" where
  "position w = length (array w)"

text \<open>Decimal text of a natural number, as \<open>id(obj)\<close> appears in a reservation name.\<close>

fun str_of_nat :: "nat \<Rightarrow> string" where
  "str_of_nat n =
     (if n < 10 then [''0123456789'' ! n]
      else str_of_nat (n div 10) @ [''0123456789'' ! (n mod 10)])"

declare str_of_nat.simps [simp del]

text \<open>
  An object is known to the writer by its class name and its identity. With an object
  given, the reservation name is \<open>Class__id(name)\<close>.
\<close>

type_synonym obj = "string \<times> nat"

definition reserve_name :: "obj option \<Rightarrow> string \<Rightarrow> string" where
  "reserve_name ob name =
     (case ob of
        None \<Rightarrow> name
      | Some (cls, ident) \<Rightarrow> cls @ ''__'' @ str_of_nat ident @ ''('' @ name @ '')'')"

text \<open>
  A method that mutates the writer returns the exception it raised, if any, and the
  writer as the call left it.
\<close>

definition pack :: "BinaryWriter \<Rightarrow> string \<Rightarrow> val list \<Rightarrow> error option \<times> BinaryWriter" where
  "pack w fm vals =
     (case parse_fmt w fm of
        Inl e \<Rightarrow> (Some e, w)
      | Inr f \<Rightarrow>
          (case struct_pack f vals of
             Inl e \<Rightarrow> (Some e, w)
           | Inr bs \<Rightarrow> (None, w\<lparr>array := array w @ bs\<rparr>)))"

definition reserve :: "BinaryWriter \<Rightarrow> string \<Rightarrow> string \<Rightarrow> obj option \<Rightarrow> error option \<times> BinaryWriter" where
  "reserve w name fm ob =
     (let name' = reserve_name ob name
      in if name' \<in> set (dict_keys (reserved w)) then (Some (ValueError (AlreadyReserved name')), w)
         else
           (case parse_fmt w fm of
              Inl e \<Rightarrow> (Some e, w)
            | Inr f \<Rightarrow>
                (let w1 = w\<lparr>reserved := dict_set (reserved w) name' (length (array w), f)\<rparr>
                 in case struct_calcsize f of
                      Inl e \<Rightarrow> (Some e, w1)
                    | Inr n \<Rightarrow> (None, w1\<lparr>array := array w1 @ replicate n 0\<rparr>))))"

definition mark_reserved_offset ::
  "BinaryWriter \<Rightarrow> string \<Rightarrow> string \<Rightarrow> nat \<Rightarrow> obj option \<Rightarrow> error option \<times> BinaryWriter" where
  "mark_reserved_offset w name fm offset ob =
     (let name' = reserve_name ob name
      in if name' \<in> set (dict_keys (reserved w)) then (Some (ValueError (AlreadyReserved name')), w)
         else
           (case parse_fmt w fm of
              Inl e \<Rightarrow> (Some e, w)
            | Inr f \<Rightarrow> (None, w\<lparr>reserved := dict_set (reserved w) name' (offset, f)\<rparr>)))"

text \<open>
  \<open>fill\<close> catches \<open>struct.error\<close> only and re-raises it as a \<open>ValueError\<close>. The slice
  assignment \<open>_array[offset:offset + len(packed)] = packed\<close> clamps both ends to the
  array, as \<open>take\<close> and \<open>drop\<close> do.
\<close>

definition fill :: "BinaryWriter \<Rightarrow> string \<Rightarrow> val list \<Rightarrow> obj option \<Rightarrow> error option \<times> BinaryWriter" where
  "fill w name vals ob =
     (if vals = [] then (Some (ValueError NoValues), w)
      else
        (let name' = reserve_name ob name
         in case dict_get (reserved w) name' of
              None \<Rightarrow>
                (case ob of
                   Some (cls, ident) \<Rightarrow> (Some (ValueError (NotReservedBy name' cls)), w)
                 | None \<Rightarrow> (Some (ValueError (NotReserved name')), w))
            | Some (offset, f) \<Rightarrow>
                (case struct_pack f vals of
                   Inl StructError \<Rightarrow> (Some (ValueError (FillPackFailed f vals)), w)
                 | Inl e \<Rightarrow> (Some e, w)
                 | Inr packed \<Rightarrow>
                     (None, w\<lparr>array := take offset (array w) @ packed
                                          @ drop (offset + length packed) (array w),
                               reserved := dict_pop (reserved w) name'\<rparr>))))"

fun join :: "string \<Rightarrow> string list \<Rightarrow> string" where
  "join sep [] = []"
| "join sep [x] = x"
| "join sep (x # y # ys) = x @ sep @ join sep (y # ys)"

text \<open>\<open>__bytes__\<close>: the name list of the error is joined with a newline and four spaces.\<close>

definition to_bytes_writer :: "BinaryWriter \<Rightarrow> error + byte list" where
  "to_bytes_writer w =
     (if reserved w \<noteq> []
      then Inl (ValueError (NotFilled (join (CHR 0x0A # ''    '') (dict_keys (reserved w)))))
      else Inr (array w))"

text \<open>
  \<open>pack_z_string\<close>, on the bytes \<open>value.encode(encoding)\<close> that the caller's codec
  produced: the terminator has two bytes when the encoding name, hyphens removed, starts
  with \<open>utf16\<close>.
\<close>

definition remove_char :: "char \<Rightarrow> string \<Rightarrow> string" where
  "remove_char a s = filter (\<lambda>c. c \<noteq> a) s"

definition startswith :: "string \<Rightarrow> string \<Rightarrow> bool" where
  "startswith s p = (take (length p) s = p)"

definition pack_z_string :: "BinaryWriter \<Rightarrow> byte list \<Rightarrow> string \<Rightarrow> BinaryWriter" where
  "pack_z_string w encoded encoding =
     (let terminator = (if startswith (remove_char CHR ''-'' encoding) ''utf16'' then [0, 0] else [0])
      in w\<lparr>array := array w @ encoded @ terminator\<rparr>)"

section \<open>\<open>metadata.py\<close>: field metadata and the compiled field codecs\<close>

text \<open>
  \<open>BinaryMetadata\<close> and \<open>BinaryArrayMetadata\<close> (\<open>kind\<close>); a conversion hook is a
  function that may raise. \<open>BinaryStringMetadata\<close>, whose codecs call text encoders, is
  not part of the embedding.
\<close>

datatype md_kind = Plain | Array nat

record BinaryMetadata =
  fmt :: string
  asserted :: "val list"
  unpack_func :: "(val \<Rightarrow> error + val) option"
  pack_func :: "(val \<Rightarrow> error + val) option"
  bit_count :: int
  should_skip_func :: "(bool option \<Rightarrow> (string \<times> val) list \<Rightarrow> bool) option"
  kind :: md_kind

text \<open>\<open>__post_init__\<close>: the lone asserted value, \<open>None\<close> when there is not exactly one.\<close>

definition single_asserted :: "BinaryMetadata \<Rightarrow> val" where
  "single_asserted md = (case asserted md of [v] \<Rightarrow> v | _ \<Rightarrow> VNone)"

text \<open>\<open>list.pop()\<close> takes the last element; \<open>pops n\<close> is \<open>n\<close> pops in a row.\<close>

fun pops :: "nat \<Rightarrow> val list \<Rightarrow> error + (val list \<times> val list)" where
  "pops 0 xs = Inr ([], xs)"
| "pops (Suc n) xs =
     (if xs = [] then Inl IndexError
      else (case pops n (butlast xs) of
              Inl e \<Rightarrow> Inl e
            | Inr (vs, rest) \<Rightarrow> Inr (last xs # vs, rest)))"

definition apply_hook :: "(val \<Rightarrow> error + val) option \<Rightarrow> val \<Rightarrow> error + val" where
  "apply_hook h v = (case h of None \<Rightarrow> Inr v | Some f \<Rightarrow> f v)"

definition check_asserted :: "BinaryMetadata \<Rightarrow> val \<Rightarrow> error + val" where
  "check_asserted md v =
     (if asserted md \<noteq> [] \<and> \<not> py_in v (asserted md)
      then Inl (BinaryFieldValueError v (asserted md)) else Inr v)"

text \<open>The unpacker returns the field value and the remaining \<open>struct_output\<close>.\<close>

definition get_unpacker :: "BinaryMetadata \<Rightarrow> val list \<Rightarrow> error + (val \<times> val list)" where
  "get_unpacker md struct_output =
     (case (case kind md of
              Plain \<Rightarrow> (case pops 1 struct_output of
                          Inl e \<Rightarrow> Inl e | Inr (vs, rest) \<Rightarrow> Inr (hd vs, rest))
            | Array n \<Rightarrow> (case pops n struct_output of
                            Inl e \<Rightarrow> Inl e | Inr (vs, rest) \<Rightarrow> Inr (VList vs, rest))) of
        Inl e \<Rightarrow> Inl e
      | Inr (raw, rest) \<Rightarrow>
          (case apply_hook (unpack_func md) raw of
             Inl e \<Rightarrow> Inl e
           | Inr v \<Rightarrow>
               (case check_asserted md v of
                  Inl e \<Rightarrow> Inl e
                | Inr v' \<Rightarrow> Inr (v', rest))))"

text \<open>The values \<open>list.extend\<close> appends: the items of a list, the integers of a \<open>bytes\<close>.\<close>

fun iter_val :: "val \<Rightarrow> error + val list" where
  "iter_val (VList xs) = Inr xs"
| "iter_val (VBytes bs) = Inr (map (\<lambda>b. VInt (uint b)) bs)"
| "iter_val v = Inl TypeError"

text \<open>The packer returns the extended \<open>struct_input\<close>.\<close>

definition get_packer :: "BinaryMetadata \<Rightarrow> val list \<Rightarrow> val \<Rightarrow> error + val list" where
  "get_packer md struct_input v =
     (case check_asserted md v of
        Inl e \<Rightarrow> Inl e
      | Inr v0 \<Rightarrow>
          (case apply_hook (pack_func md) v0 of
             Inl e \<Rightarrow> Inl e
           | Inr raw \<Rightarrow>
               (case kind md of
                  Plain \<Rightarrow> Inr (struct_input @ [raw])
                | Array n \<Rightarrow>
                    (case iter_val raw of
                       Inl e \<Rightarrow> Inl e
                     | Inr items \<Rightarrow> Inr (struct_input @ items)))))"

section \<open>\<open>streams/reader.py\<close>: the read cursor\<close>

text \<open>An in-memory byte source (\<open>io.BytesIO\<close>): \<open>read\<close> returns what is left, up to \<open>n\<close> bytes.\<close>

record BytesIO =
  data :: "byte list"
  cursor :: nat

definition buffer_read :: "BytesIO \<Rightarrow> nat \<Rightarrow> byte list \<times> BytesIO" where
  "buffer_read b n =
     (let bs = take n (drop (cursor b) (data b)) in (bs, b\<lparr>cursor := cursor b + length bs\<rparr>))"

record BinaryReader = BinaryBase +
  buffer :: BytesIO

definition new_reader :: "byte list \<Rightarrow> ByteOrder \<Rightarrow> bool option \<Rightarrow> BinaryReader" where
  "new_reader bs bo lv =
     \<lparr>default_byte_order = bo, long_varints = lv, buffer = \<lparr>data = bs, cursor = 0\<rparr>\<rparr>"

text \<open>
  \<open>unpack\<close> at the current offset. The reader's own \<open>calcsize\<close> is the cached
  \<open>struct.calcsize\<close> of the parsed format. The cursor stays advanced when \<open>struct.unpack\<close>
  refuses a short read.
\<close>

definition unpack :: "BinaryReader \<Rightarrow> string \<Rightarrow> (error + val list) \<times> BinaryReader" where
  "unpack r fm =
     (case parse_fmt r fm of
        Inl e \<Rightarrow> (Inl e, r)
      | Inr f \<Rightarrow>
          (case struct_calcsize f of
             Inl e \<Rightarrow> (Inl e, r)
           | Inr fmt_size \<Rightarrow>
               (case buffer_read (buffer r) fmt_size of (raw_data, b') \<Rightarrow>
                  (if raw_data = [] \<and> fmt_size > 0
                   then (Inl (ValueError (CouldNotUnpack fmt_size f)), r\<lparr>buffer := b'\<rparr>)
                   else (struct_unpack f raw_data, r\<lparr>buffer := b'\<rparr>)))))"

definition unpack_value :: "BinaryReader \<Rightarrow> string \<Rightarrow> (error + val) \<times> BinaryReader" where
  "unpack_value r fm =
     (case unpack r fm of
        (Inl e, r') \<Rightarrow> (Inl e, r')
      | (Inr vs, r') \<Rightarrow>
          (if length vs > 1 then (Inl (ValueError MoreThanOneValue), r')
           else (case vs of [] \<Rightarrow> (Inl IndexError, r') | v # _ \<Rightarrow> (Inr v, r'))))"

definition reader_read :: "BinaryReader \<Rightarrow> nat \<Rightarrow> byte list \<times> BinaryReader" where
  "reader_read r n = (case buffer_read (buffer r) n of (bs, b') \<Rightarrow> (bs, r\<lparr>buffer := b'\<rparr>))"

section \<open>\<open>utilities.py\<close>: reading text from a buffer\<close>

text \<open>
  The helpers return the bytes they collected; where the source ends with
  \<open>array.decode(encoding)\<close> the result is \<open>Decoded encoding array\<close>, the decoding itself
  being the text codec's.
\<close>

datatype chars = Raw "byte list" | Decoded string "byte list"

definition finish_chars :: "string option \<Rightarrow> byte list \<Rightarrow> chars" where
  "finish_chars encoding arr = (case encoding of None \<Rightarrow> Raw arr | Some enc \<Rightarrow> Decoded enc arr)"

definition is_space_byte :: "byte \<Rightarrow> bool" where
  "is_space_byte b = (b \<in> {0x20, 0x09, 0x0A, 0x0B, 0x0C, 0x0D})"

definition rstrip_spaces :: "byte list \<Rightarrow> byte list" where
  "rstrip_spaces bs = rev (dropWhile is_space_byte (rev bs))"

text \<open>\<open>while stripped_array.endswith(terminator): stripped_array = stripped_array[:-bytes_per_char]\<close>\<close>

function strip_terminators :: "nat \<Rightarrow> byte list \<Rightarrow> byte list" where
  "strip_terminators bytes_per_char bs =
     (if bytes_per_char \<le> length bs \<and> bytes_per_char > 0
         \<and> drop (length bs - bytes_per_char) bs = replicate bytes_per_char 0
      then strip_terminators bytes_per_char (take (length bs - bytes_per_char) bs)
      else bs)"
  by pat_completeness auto
termination
  by (relation "measure (\<lambda>(n, bs). length bs)") auto

declare strip_terminators.simps [simp del]

text \<open>
  The \<open>while 1\<close> loop of \<open>read_chars_from_buffer\<close>, with the characters read so far.
  A read that returns nothing is appended like any other when a length is given. Entered
  with more characters than the length, the source's loop never ends (\<open>NoReturn\<close>);
  \<open>read_chars_from_buffer\<close> enters it with none and a length of at least one.
\<close>

function read_chars_loop ::
  "BytesIO \<Rightarrow> nat \<Rightarrow> nat option \<Rightarrow> bool \<Rightarrow> nat option \<Rightarrow> string option \<Rightarrow> bool
   \<Rightarrow> byte list list \<Rightarrow> (error + chars) \<times> BytesIO" where
  "read_chars_loop b bytes_per_char len reset_old_offset old_offset encoding strip chs =
     (case buffer_read b bytes_per_char of (c, b1) \<Rightarrow>
        (if c = [] \<and> len = None then (Inl (ValueError OutOfBytes), b1)
         else if len = None \<and> c = replicate bytes_per_char 0 then
           (Inr (finish_chars encoding (concat chs)),
            (case old_offset of
               Some old \<Rightarrow> (if reset_old_offset then b1\<lparr>cursor := old\<rparr> else b1)
             | None \<Rightarrow> b1))
         else if Some (length (chs @ [c])) = len then
           (Inr (finish_chars encoding
                   (if strip then strip_terminators bytes_per_char (rstrip_spaces (concat (chs @ [c])))
                    else concat (chs @ [c]))),
            (case old_offset of
               Some old \<Rightarrow> (if reset_old_offset then b1\<lparr>cursor := old\<rparr> else b1)
             | None \<Rightarrow> b1))
         else if len \<noteq> None \<and> length (chs @ [c]) > the len then (Inl NoReturn, b1)
         else read_chars_loop b1 bytes_per_char len reset_old_offset old_offset encoding strip
                (chs @ [c])))"
  by pat_completeness auto
termination
  by (relation "measure (\<lambda>(b, n, len, r, old, enc, s, chs).
        (case len of None \<Rightarrow> Suc (length (data b)) - cursor b | Some k \<Rightarrow> Suc k - length chs))")
    (auto simp: buffer_read_def Let_def split: option.splits)

declare read_chars_loop.simps [simp del]

definition read_chars_from_buffer ::
  "BytesIO \<Rightarrow> nat option \<Rightarrow> nat option \<Rightarrow> bool \<Rightarrow> string option \<Rightarrow> bool
   \<Rightarrow> (error + chars) \<times> BytesIO" where
  "read_chars_from_buffer b offset len reset_old_offset encoding strip =
     (if len = Some 0 then
        (if \<not> reset_old_offset
         then (case offset of
                 None \<Rightarrow> (Inl TypeError, b)
               | Some off \<Rightarrow> (Inr (finish_chars encoding []), b\<lparr>cursor := off\<rparr>))
         else (Inr (finish_chars encoding []), b))
      else
        (let bytes_per_char =
               (case encoding of
                  None \<Rightarrow> 1
                | Some enc \<Rightarrow> if startswith (remove_char CHR ''-'' enc) ''utf16le'' then 2 else 1)
         in case offset of
              None \<Rightarrow> read_chars_loop b bytes_per_char len reset_old_offset None encoding strip []
            | Some off \<Rightarrow>
                read_chars_loop (b\<lparr>cursor := off\<rparr>) bytes_per_char len reset_old_offset
                  (Some (cursor b)) encoding strip []))"

function null_terminated_loop ::
  "BinaryReader \<Rightarrow> nat \<Rightarrow> string option \<Rightarrow> byte list list \<Rightarrow> (error + chars) \<times> BinaryReader" where
  "null_terminated_loop r bytes_per_char encoding chs =
     (case reader_read r bytes_per_char of (c, r1) \<Rightarrow>
        (if c = [] then (Inl (ValueError OutOfBytes), r1)
         else if c = replicate bytes_per_char 0 then (Inr (finish_chars encoding (concat chs)), r1)
         else null_terminated_loop r1 bytes_per_char encoding (chs @ [c])))"
  by pat_completeness auto
termination
  by (relation "measure (\<lambda>(r, n, enc, chs). length (data (buffer r)) - cursor (buffer r))")
    (auto simp: reader_read_def buffer_read_def Let_def)

declare null_terminated_loop.simps [simp del]

definition read_null_terminated_bytes ::
  "BinaryReader \<Rightarrow> string option \<Rightarrow> (error + chars) \<times> BinaryReader" where
  "read_null_terminated_bytes r encoding =
     (let bytes_per_char =
            (case encoding of
               None \<Rightarrow> 1
             | Some enc \<Rightarrow> if startswith (remove_char CHR ''-'' enc) ''utf16'' then 2 else 1)
      in null_terminated_loop r bytes_per_char encoding [])"

section \<open>\<open>streams/bits.py\<close>: the bit-field reader and writer\<close>

text \<open>
  The accumulator \<open>_field\<close> is a text of the characters \<open>0\<close> and \<open>1\<close>, least significant
  bit first; \<open>_fmt\<close> is the format of the storage unit and \<open>_offset\<close> the reader's place
  in it.
\<close>

record BitField =
  bits_field :: string
  bits_fmt :: string
  bits_offset :: int

definition new_bits :: BitField where
  "new_bits = \<lparr>bits_field = [], bits_fmt = [], bits_offset = 0\<rparr>"

definition bits_clear :: "BitField \<Rightarrow> BitField" where
  "bits_clear bf = bf\<lparr>bits_field := [], bits_fmt := [], bits_offset := 0\<rparr>"

definition bits_empty :: "BitField \<Rightarrow> bool" where
  "bits_empty bf = (bits_field bf = [])"

text \<open>
  \<open>format(value, "0Nb")\<close>: the binary digits of the magnitude, most significant first,
  filled with zeros to \<open>N\<close> characters, a minus sign counting as one of them. A negative
  \<open>N\<close> makes the format specifier invalid.
\<close>

fun bin_digits :: "nat \<Rightarrow> string" where
  "bin_digits n =
     (if n < 2 then [if n = 0 then CHR ''0'' else CHR ''1'']
      else bin_digits (n div 2) @ [if n mod 2 = 0 then CHR ''0'' else CHR ''1''])"

declare bin_digits.simps [simp del]

definition zfill :: "nat \<Rightarrow> string \<Rightarrow> string" where
  "zfill w s = replicate (w - length s) CHR ''0'' @ s"

definition format_b :: "int \<Rightarrow> nat \<Rightarrow> string" where
  "format_b x w =
     (if x < 0 then CHR ''-'' # zfill (w - 1) (bin_digits (nat (- x)))
      else zfill w (bin_digits (nat x)))"

definition format_bits :: "int \<Rightarrow> int \<Rightarrow> error + string" where
  "format_bits x nbits =
     (if nbits < 0 then Inl (ValueError InvalidFormatSpec) else Inr (format_b x (nat nbits)))"

text \<open>
  \<open>int(s, 2)\<close> on the texts the accumulator can hold: binary digits after an optional
  sign; anything else is an invalid literal.
\<close>

definition bin_value :: "string \<Rightarrow> int" where
  "bin_value s = foldl (\<lambda>acc c. 2 * acc + (if c = CHR ''1'' then 1 else 0)) 0 s"

definition is_bin :: "string \<Rightarrow> bool" where
  "is_bin s = (s \<noteq> [] \<and> list_all (\<lambda>c. c = CHR ''0'' \<or> c = CHR ''1'') s)"

definition int2 :: "string \<Rightarrow> error + int" where
  "int2 s =
     (case s of
        [] \<Rightarrow> Inl (ValueError (InvalidLiteral s))
      | c # r \<Rightarrow>
          if c = CHR ''-'' then (if is_bin r then Inr (- bin_value r) else Inl (ValueError (InvalidLiteral s)))
          else if c = CHR ''+'' then (if is_bin r then Inr (bin_value r) else Inl (ValueError (InvalidLiteral s)))
          else if is_bin s then Inr (bin_value s)
          else Inl (ValueError (InvalidLiteral s)))"

text \<open>Python's slice \<open>s[a:b]\<close>: a negative index counts from the end, and both are clamped.\<close>

definition slice_index :: "nat \<Rightarrow> int \<Rightarrow> nat" where
  "slice_index n i = (if i < 0 then nat (max 0 (int n + i)) else min n (nat i))"

definition py_slice :: "'a list \<Rightarrow> int \<Rightarrow> int \<Rightarrow> 'a list" where
  "py_slice s a b = take (slice_index (length s) b - slice_index (length s) a)
                         (drop (slice_index (length s) a) s)"

text \<open>\<open>value >= 2 ** bit_count\<close>; with a negative exponent the power is a fraction below one.\<close>

definition too_large :: "int \<Rightarrow> int \<Rightarrow> bool" where
  "too_large x nbits = (if nbits \<ge> 0 then x \<ge> 2 ^ nat nbits else x \<ge> 1)"

text \<open>\<open>format(self._field, "0<N")\<close>: zeros appended up to \<open>N\<close> characters.\<close>

definition pad_field :: "string \<Rightarrow> nat \<Rightarrow> string" where
  "pad_field s n = s @ replicate (n - length s) CHR ''0''"

definition finish_field :: "BitField \<Rightarrow> BinaryWriter \<Rightarrow> error option \<times> BitField \<times> BinaryWriter" where
  "finish_field bf w =
     (if bits_field bf = [] then (None, bf, w)
      else
        (case struct_calcsize (bits_fmt bf) of
           Inl e \<Rightarrow> (Some e, bf, w)
         | Inr sz \<Rightarrow>
             (case int2 (rev (pad_field (bits_field bf) sz)) of
                Inl e \<Rightarrow> (Some e, bf, w)
              | Inr integer \<Rightarrow>
                  (case pack w (bits_fmt bf) [VInt integer] of
                     (Some e, w') \<Rightarrow> (Some e, bf, w')
                   | (None, w') \<Rightarrow> (None, bits_clear bf, w')))))"

definition finish_field_buffer :: "BitField \<Rightarrow> val list \<Rightarrow> (error + string) \<times> BitField \<times> val list" where
  "finish_field_buffer bf buf =
     (case struct_calcsize (bits_fmt bf) of
        Inl e \<Rightarrow> (Inl e, bf, buf)
      | Inr sz \<Rightarrow>
          (case int2 (rev (pad_field (bits_field bf) sz)) of
             Inl e \<Rightarrow> (Inl e, bf, buf)
           | Inr integer \<Rightarrow> (Inr (bits_fmt bf), bits_clear bf, buf @ [VInt integer])))"

text \<open>
  \<open>BitFieldWriter.write\<close>: the range check comes first; a change of unit format flushes
  the old unit; the value's bits are appended; a full unit is packed into the writer.
\<close>

definition BitFieldWriter_write ::
  "BitField \<Rightarrow> BinaryWriter \<Rightarrow> int \<Rightarrow> int \<Rightarrow> string \<Rightarrow> error option \<times> BitField \<times> BinaryWriter" where
  "BitFieldWriter_write bf w x nbits fm =
     (if too_large x nbits then (Some (ValueError (BitValueTooLarge x nbits)), bf, w)
      else
        (case (if fm \<noteq> bits_fmt bf
               then (if bits_fmt bf \<noteq> []
                     then (case finish_field bf w of
                             (Some e, bf', w') \<Rightarrow> (Some e, bf', w', True)
                           | (None, bf', w') \<Rightarrow> (None, bf'\<lparr>bits_fmt := fm\<rparr>, w', True))
                     else (None, bf\<lparr>bits_fmt := fm\<rparr>, w, True))
               else (None, bf, w, False)) of
           (Some e, bf1, w1, new_fmt) \<Rightarrow> (Some e, bf1, w1)
         | (None, bf1, w1, new_fmt) \<Rightarrow>
             (case format_bits x nbits of
                Inl e \<Rightarrow> (Some e, bf1, w1)
              | Inr s \<Rightarrow>
                  (let bf2 = bf1\<lparr>bits_field := bits_field bf1 @ rev s\<rparr>
                   in case struct_calcsize (bits_fmt bf2) of
                        Inl e \<Rightarrow> (Some e, bf2, w1)
                      | Inr sz \<Rightarrow>
                          (if length (bits_field bf2) \<ge> 8 * sz then
                             (if new_fmt then (Some (ValueError NewBitFieldExceeded), bf2, w1)
                              else
                                (case int2 (rev (take (8 * sz) (bits_field bf2))) of
                                   Inl e \<Rightarrow> (Some e, bf2, w1)
                                 | Inr integer \<Rightarrow>
                                     (case pack w1 (bits_fmt bf2) [VInt integer] of
                                        (Some e, w2) \<Rightarrow> (Some e, bf2, w2)
                                      | (None, w2) \<Rightarrow>
                                          (None, bf2\<lparr>bits_field := drop (8 * sz) (bits_field bf2)\<rparr>, w2))))
                           else (None, bf2, w1))))))"

text \<open>
  \<open>write_to_buffer\<close> returns the format it added. When the unit format changes over a
  partial accumulator, it reads \<open>self._fmt\<close> after \<open>finish_field_buffer\<close> has cleared it,
  so that flush adds the empty format.
\<close>

definition write_to_buffer ::
  "BitField \<Rightarrow> val list \<Rightarrow> int \<Rightarrow> int \<Rightarrow> string \<Rightarrow> (error + string) \<times> BitField \<times> val list" where
  "write_to_buffer bf buf x nbits fm =
     (if too_large x nbits then (Inl (ValueError (BitValueTooLarge x nbits)), bf, buf)
      else
        (case (if fm \<noteq> bits_fmt bf
               then (if bits_fmt bf \<noteq> [] \<and> \<not> bits_empty bf
                     then (case finish_field_buffer bf buf of
                             (Inl e, bf', buf') \<Rightarrow> (Some e, bf', buf', [], True)
                           | (Inr _, bf', buf') \<Rightarrow>
                               (None, bf'\<lparr>bits_fmt := fm\<rparr>, buf', bits_fmt bf', True))
                     else (None, bf\<lparr>bits_fmt := fm\<rparr>, buf, [], True))
               else (None, bf, buf, [], False)) of
           (Some e, bf1, buf1, added_fmt, new_fmt) \<Rightarrow> (Inl e, bf1, buf1)
         | (None, bf1, buf1, added_fmt, new_fmt) \<Rightarrow>
             (case format_bits x nbits of
                Inl e \<Rightarrow> (Inl e, bf1, buf1)
              | Inr s \<Rightarrow>
                  (let bf2 = bf1\<lparr>bits_field := bits_field bf1 @ rev s\<rparr>
                   in case struct_calcsize (bits_fmt bf2) of
                        Inl e \<Rightarrow> (Inl e, bf2, buf1)
                      | Inr sz \<Rightarrow>
                          (if length (bits_field bf2) \<ge> 8 * sz then
                             (if new_fmt then (Inl (ValueError NewBitFieldExceeded), bf2, buf1)
                              else
                                (case int2 (rev (take (8 * sz) (bits_field bf2))) of
                                   Inl e \<Rightarrow> (Inl e, bf2, buf1)
                                 | Inr field_int \<Rightarrow>
                                     (Inr (added_fmt @ bits_fmt bf2),
                                      bf2\<lparr>bits_field := drop (8 * sz) (bits_field bf2)\<rparr>,
                                      buf1 @ [VInt field_int])))
                           else (Inr added_fmt, bf2, buf1))))))"

text \<open>The value an unpacked item has as an integer for \<open>format\<close>; \<open>bytes\<close> has none.\<close>

fun int_of_val :: "val \<Rightarrow> error + int" where
  "int_of_val (VInt i) = Inr i"
| "int_of_val (VBool b) = Inr (if b then 1 else 0)"
| "int_of_val v = Inl TypeError"

text \<open>
  What both readers do once the unit is in hand. A new unit replaces the field and the
  format; the offset is kept.
\<close>

definition take_bits :: "BitField \<Rightarrow> int \<Rightarrow> nat \<Rightarrow> (error + int) \<times> BitField" where
  "take_bits bf nbits max_bit_count =
     (let binary_str = rev (py_slice (bits_field bf) (bits_offset bf) (bits_offset bf + nbits));
          bf1 = bf\<lparr>bits_offset := bits_offset bf + nbits\<rparr>
      in if max_bit_count = 0 then (Inl ZeroDivisionError, bf1)
         else
           (let bf2 = (if bits_offset bf1 mod int max_bit_count = 0
                       then bf1\<lparr>bits_field := [], bits_offset := 0\<rparr> else bf1)
            in (int2 binary_str, bf2)))"

definition needs_unit :: "BitField \<Rightarrow> int \<Rightarrow> string \<Rightarrow> nat \<Rightarrow> bool" where
  "needs_unit bf nbits fm max_bit_count =
     (bits_field bf = [] \<or> fm \<noteq> bits_fmt bf \<or> bits_offset bf + nbits > int max_bit_count)"

definition BitFieldReader_read ::
  "BitField \<Rightarrow> BinaryReader \<Rightarrow> int \<Rightarrow> string \<Rightarrow> (error + int) \<times> BitField \<times> BinaryReader" where
  "BitFieldReader_read bf r nbits fm =
     (case struct_calcsize fm of
        Inl e \<Rightarrow> (Inl e, bf, r)
      | Inr sz \<Rightarrow>
          (if needs_unit bf nbits fm (8 * sz) then
             (case unpack_value r fm of
                (Inl e, r') \<Rightarrow> (Inl e, bf, r')
              | (Inr v, r') \<Rightarrow>
                  (case int_of_val v of
                     Inl e \<Rightarrow> (Inl e, bf, r')
                   | Inr integer \<Rightarrow>
                       (case take_bits (bf\<lparr>bits_field := rev (format_b integer (8 * sz)),
                                           bits_fmt := fm\<rparr>) nbits (8 * sz) of
                          (res, bf') \<Rightarrow> (res, bf', r'))))
           else (case take_bits bf nbits (8 * sz) of (res, bf') \<Rightarrow> (res, bf', r))))"

text \<open>
  \<open>PRIMITIVE_FMT_SIZE_MINMAX[fmt][1][1]\<close>: the largest value of a format of the table;
  a format missing from the table is a \<open>KeyError\<close>, one whose range is \<open>None\<close> a
  \<open>TypeError\<close>.
\<close>

definition fmt_max :: "string \<Rightarrow> error + int" where
  "fmt_max fm =
     (if fm = ''B'' then Inr (2 ^ 8 - 1) else if fm = ''b'' then Inr (2 ^ 7 - 1)
      else if fm = ''H'' then Inr (2 ^ 16 - 1) else if fm = ''h'' then Inr (2 ^ 15 - 1)
      else if fm = ''I'' then Inr (2 ^ 32 - 1) else if fm = ''i'' then Inr (2 ^ 31 - 1)
      else if fm = ''Q'' then Inr (2 ^ 64 - 1) else if fm = ''q'' then Inr (2 ^ 63 - 1)
      else if fm \<in> {''?'', ''f'', ''d'', ''v'', ''V''} then Inl TypeError
      else Inl KeyError)"

definition read_list_buffer ::
  "BitField \<Rightarrow> val list \<Rightarrow> int \<Rightarrow> string \<Rightarrow> (error + int) \<times> BitField \<times> val list" where
  "read_list_buffer bf buf nbits fm =
     (case struct_calcsize fm of
        Inl e \<Rightarrow> (Inl e, bf, buf)
      | Inr sz \<Rightarrow>
          (if needs_unit bf nbits fm (8 * sz) then
             (if buf = [] then (Inl IndexError, bf, buf)
              else
                (case fmt_max fm of
                   Inl e \<Rightarrow> (Inl e, bf, butlast buf)
                 | Inr max_size \<Rightarrow>
                     (case int_of_val (last buf) of
                        Inl e \<Rightarrow> (Inl e, bf, butlast buf)
                      | Inr integer \<Rightarrow>
                          (if integer > max_size
                           then (Inl (ValueError (PoppedTooLarge integer fm)), bf, butlast buf)
                           else
                             (case take_bits (bf\<lparr>bits_field := rev (format_b integer (8 * sz)),
                                                 bits_fmt := fm\<rparr>) nbits (8 * sz) of
                                (res, bf') \<Rightarrow> (res, bf', butlast buf))))))
           else (case take_bits bf nbits (8 * sz) of (res, bf') \<Rightarrow> (res, bf', buf))))"

section \<open>\<open>binary_struct.py\<close>: the record engine\<close>

text \<open>
  A compiled record type: its name and, per binary field, the dataclass field's name and
  \<open>init\<close> flag, the declared type (which a bit field's value is cast to) and the
  metadata. The packers and unpackers of the class are \<open>get_packer\<close> and \<open>get_unpacker\<close>
  of the metadata. Fields marked \<open>NOT_BINARY\<close> are not among a class's binary fields.
\<close>

datatype field_type = BoolType | IntType

record Field =
  field_name :: string
  field_init :: bool
  field_type :: field_type
  metadata :: BinaryMetadata

record StructClass =
  cls_name :: string
  FIELDS :: "Field list"

text \<open>An instance: its attributes by field name, its byte order and width flag, its identity.\<close>

record BinaryStruct =
  attrs :: "(string \<times> val) list"
  byte_order :: "ByteOrder option"
  self_long_varints :: "bool option"
  ident :: nat

definition getattr :: "BinaryStruct \<Rightarrow> string \<Rightarrow> val" where
  "getattr self nm = (case dict_get (attrs self) nm of None \<Rightarrow> VNone | Some v \<Rightarrow> v)"

definition should_skip ::
  "BinaryMetadata \<Rightarrow> bool option \<Rightarrow> (string \<times> val) list \<Rightarrow> bool" where
  "should_skip md lv vals = (case should_skip_func md of None \<Rightarrow> False | Some skip \<Rightarrow> skip lv vals)"

text \<open>\<open>get_full_fmt\<close>: the loop over the fields, with \<open>full_fmt\<close>, \<open>used_bits\<close> and \<open>bit_field_max\<close>.\<close>

fun full_fmt_loop ::
  "Field list \<Rightarrow> bool option \<Rightarrow> (string \<times> val) list option \<Rightarrow> string \<Rightarrow> int \<Rightarrow> int
   \<Rightarrow> error + string" where
  "full_fmt_loop [] lv fvs full_fmt used_bits bit_field_max = Inr full_fmt"
| "full_fmt_loop (f # fs) lv fvs full_fmt used_bits bit_field_max =
     (let md = metadata f
      in if (case fvs of None \<Rightarrow> False | Some vals \<Rightarrow> should_skip md lv vals)
         then full_fmt_loop fs lv fvs full_fmt used_bits bit_field_max
         else if bit_count md = -1 then full_fmt_loop fs lv fvs (full_fmt @ fmt md) 0 0
         else if full_fmt = [] \<or> bit_field_max = 0 \<or> fmt md \<noteq> [last full_fmt] then
           (case struct_calcsize (fmt md) of
              Inl e \<Rightarrow> Inl e
            | Inr sz \<Rightarrow> full_fmt_loop fs lv fvs (full_fmt @ fmt md) (bit_count md) (int sz * 8))
         else if used_bits + bit_count md > bit_field_max then
           full_fmt_loop fs lv fvs (full_fmt @ fmt md)
             (bit_count md - (bit_field_max - used_bits)) bit_field_max
         else full_fmt_loop fs lv fvs full_fmt (used_bits + bit_count md) bit_field_max)"

definition get_full_fmt ::
  "StructClass \<Rightarrow> bool option \<Rightarrow> (string \<times> val) list option \<Rightarrow> error + string" where
  "get_full_fmt c lv fvs = full_fmt_loop (FIELDS c) lv fvs [] 0 0"

definition get_size :: "StructClass \<Rightarrow> ByteOrder \<Rightarrow> bool option \<Rightarrow> error + nat" where
  "get_size c bo lv =
     (case get_full_fmt c None None of
        Inl e \<Rightarrow> Inl e
      | Inr ff \<Rightarrow>
          (let full_fmt = value_of bo @ ff
           in if CHR ''v'' \<in> set full_fmt \<or> CHR ''V'' \<in> set full_fmt then
                (case lv of
                   None \<Rightarrow> Inl (ValueError VarintsUnset)
                 | Some True \<Rightarrow>
                     struct_calcsize
                       (replace_char CHR ''V'' CHR ''Q'' (replace_char CHR ''v'' CHR ''q'' full_fmt))
                 | Some False \<Rightarrow>
                     struct_calcsize
                       (replace_char CHR ''V'' CHR ''I'' (replace_char CHR ''v'' CHR ''i'' full_fmt)))
              else struct_calcsize full_fmt))"

subsection \<open>Unpacking\<close>

record decode_state =
  st_reader :: BinaryReader
  st_bits :: BitField
  st_output :: "val list option"
  st_all :: "(string \<times> val) list"
  st_init :: "(string \<times> val) list"
  st_non_init :: "(string \<times> val) list"

definition store_value :: "Field \<Rightarrow> val \<Rightarrow> decode_state \<Rightarrow> decode_state" where
  "store_value f v st =
     (let st1 = st\<lparr>st_all := dict_set (st_all st) (field_name f) v\<rparr>
      in if \<not> field_init f then st1\<lparr>st_non_init := dict_set (st_non_init st) (field_name f) v\<rparr>
         else st1\<lparr>st_init := dict_set (st_init st) (field_name f) v\<rparr>)"

fun cast :: "field_type \<Rightarrow> int \<Rightarrow> val" where
  "cast BoolType x = VBool (x \<noteq> 0)"
| "cast IntType x = VInt x"

text \<open>
  One round of the field loop of \<open>from_bytes\<close>. With \<open>struct_output\<close> unset the field
  is read from the reader by its own format; otherwise its raw values are popped from
  the bulk output.
\<close>

definition unpack_field :: "bool option \<Rightarrow> Field \<Rightarrow> decode_state \<Rightarrow> error + decode_state" where
  "unpack_field lv f st =
     (let md = metadata f;
          st1 = (if bit_count md = -1 \<and> \<not> bits_empty (st_bits st)
                 then st\<lparr>st_bits := bits_clear (st_bits st)\<rparr> else st)
      in if should_skip md lv (st_all st1) then Inr (store_value f VNone st1)
         else if bit_count md \<noteq> -1 then
           (case (case st_output st1 of
                    None \<Rightarrow>
                      (case BitFieldReader_read (st_bits st1) (st_reader st1) (bit_count md) (fmt md) of
                         (res, bf, r) \<Rightarrow> (res, st1\<lparr>st_bits := bf, st_reader := r\<rparr>))
                  | Some out \<Rightarrow>
                      (case read_list_buffer (st_bits st1) out (bit_count md) (fmt md) of
                         (res, bf, out') \<Rightarrow> (res, st1\<lparr>st_bits := bf, st_output := Some out'\<rparr>))) of
              (Inl e, st2) \<Rightarrow> Inl e
            | (Inr x, st2) \<Rightarrow>
                (let v = cast (field_type f) x
                 in if asserted md \<noteq> [] \<and> \<not> py_in v (asserted md)
                    then Inl (BinaryFieldValueError v (asserted md))
                    else Inr (store_value f v st2)))
         else
           (case st_output st1 of
              None \<Rightarrow>
                (case unpack (st_reader st1) (fmt md) of
                   (Inl e, r') \<Rightarrow> Inl e
                 | (Inr vs, r') \<Rightarrow>
                     (case get_unpacker md vs of
                        Inl e \<Rightarrow> Inl e
                      | Inr (v, rest) \<Rightarrow> Inr (store_value f v (st1\<lparr>st_reader := r'\<rparr>))))
            | Some out \<Rightarrow>
                (case get_unpacker md out of
                   Inl e \<Rightarrow> Inl e
                 | Inr (v, out') \<Rightarrow> Inr (store_value f v (st1\<lparr>st_output := Some out'\<rparr>)))))"

fun unpack_fields :: "bool option \<Rightarrow> Field list \<Rightarrow> decode_state \<Rightarrow> error + decode_state" where
  "unpack_fields lv [] st = Inr st"
| "unpack_fields lv (f # fs) st =
     (case unpack_field lv f st of Inl e \<Rightarrow> Inl e | Inr st' \<Rightarrow> unpack_fields lv fs st')"

text \<open>
  The instance \<open>cls(**init_values)\<close> with the later \<open>setattr\<close> calls: \<open>__post_init__\<close>
  sets every single-asserted field to its value, then the \<open>init=False\<close> fields receive
  what was decoded.
\<close>

definition post_init :: "Field list \<Rightarrow> (string \<times> val) list \<Rightarrow> (string \<times> val) list" where
  "post_init fs vals =
     foldl (\<lambda>d f. if single_asserted (metadata f) \<noteq> VNone
                   then dict_set d (field_name f) (single_asserted (metadata f)) else d) vals fs"

definition set_all :: "(string \<times> val) list \<Rightarrow> (string \<times> val) list \<Rightarrow> (string \<times> val) list" where
  "set_all d kvs = foldl (\<lambda>d kv. dict_set d (fst kv) (snd kv)) d kvs"

datatype source = FromBytes "byte list" | FromReader BinaryReader

definition careful_unpack_mode :: "StructClass \<Rightarrow> bool" where
  "careful_unpack_mode c = list_ex (\<lambda>f. should_skip_func (metadata f) \<noteq> None) (FIELDS c)"

text \<open>
  The arguments of \<open>from_bytes\<close> resolved: the byte order defaults to the reader's, or to
  little-endian for \<open>bytes\<close>; the width flag defaults to the reader's and stays unset for
  \<open>bytes\<close>. A transient reader over \<open>bytes\<close> is built with the byte order only, so its
  width flag is the constructor's default \<open>True\<close>; a reader passed in is used as it is.
\<close>

definition arg_byte_order :: "source \<Rightarrow> ByteOrder option \<Rightarrow> ByteOrder" where
  "arg_byte_order src bo_arg =
     (case bo_arg of
        None \<Rightarrow> (case src of FromReader r \<Rightarrow> default_byte_order r | FromBytes bs \<Rightarrow> LittleEndian)
      | Some b \<Rightarrow> b)"

definition arg_long_varints :: "source \<Rightarrow> bool option \<Rightarrow> bool option" where
  "arg_long_varints src lv_arg =
     (case lv_arg of
        None \<Rightarrow> (case src of FromReader r \<Rightarrow> long_varints r | FromBytes bs \<Rightarrow> None)
      | Some b \<Rightarrow> Some b)"

definition source_reader :: "source \<Rightarrow> ByteOrder \<Rightarrow> BinaryReader" where
  "source_reader src bo =
     (case src of FromBytes bs \<Rightarrow> new_reader bs bo (Some True) | FromReader r \<Rightarrow> r)"

definition initial_state :: "BinaryReader \<Rightarrow> val list option \<Rightarrow> decode_state" where
  "initial_state rd struct_output =
     \<lparr>st_reader = rd, st_bits = new_bits, st_output = struct_output,
      st_all = [], st_init = [], st_non_init = []\<rparr>"

definition make_instance ::
  "StructClass \<Rightarrow> decode_state \<Rightarrow> ByteOrder \<Rightarrow> bool option \<Rightarrow> nat \<Rightarrow> BinaryStruct" where
  "make_instance c st bo lv new_id =
     \<lparr>attrs = set_all (post_init (FIELDS c) (st_init st)) (st_non_init st),
      byte_order = Some bo, self_long_varints = lv, ident = new_id\<rparr>"

text \<open>
  \<open>old_byte_order\<close> is saved when the byte order differs from the reader's and written
  back at the end.
\<close>

definition restore_byte_order :: "source \<Rightarrow> ByteOrder \<Rightarrow> BinaryReader \<Rightarrow> BinaryReader" where
  "restore_byte_order src bo rd =
     (case src of
        FromBytes bs \<Rightarrow> rd
      | FromReader r \<Rightarrow>
          if bo \<noteq> default_byte_order r then rd\<lparr>default_byte_order := default_byte_order r\<rparr> else rd)"

text \<open>
  \<open>from_bytes\<close> returns the instance and the reader it read from; \<open>new_id\<close> is the
  identity of the instance it creates.
\<close>

definition from_bytes ::
  "StructClass \<Rightarrow> source \<Rightarrow> ByteOrder option \<Rightarrow> bool option \<Rightarrow> nat
   \<Rightarrow> error + (BinaryStruct \<times> BinaryReader)" where
  "from_bytes c src bo_arg lv_arg new_id =
     (let bo = arg_byte_order src bo_arg;
          lv = arg_long_varints src lv_arg;
          rd = source_reader src bo
      in case get_full_fmt c None None of
           Inl e \<Rightarrow> Inl e
         | Inr full_fmt \<Rightarrow>
             (case (if \<not> careful_unpack_mode c
                    then (case unpack rd full_fmt of
                            (Inl e, r') \<Rightarrow> Inl e
                          | (Inr vs, r') \<Rightarrow> Inr (Some (rev vs), r'))
                    else Inr (None, rd)) of
                Inl e \<Rightarrow> Inl e
              | Inr (struct_output, rd1) \<Rightarrow>
                  (case unpack_fields lv (FIELDS c) (initial_state rd1 struct_output) of
                     Inl e \<Rightarrow> Inl e
                   | Inr st \<Rightarrow>
                       Inr (make_instance c st bo lv new_id,
                            restore_byte_order src bo (st_reader st)))))"

subsection \<open>Packing\<close>

record pack_state =
  ps_writer :: BinaryWriter
  ps_bits :: BitField
  ps_fmt :: string
  ps_input :: "val list"

text \<open>
  \<open>get_fmt_size\<close> of \<open>to_writer\<close>: with the width flag unset it is \<open>struct.calcsize\<close> of
  the bare format, which has no byte-order character.
\<close>

definition get_fmt_size :: "bool option \<Rightarrow> BinaryWriter \<Rightarrow> string \<Rightarrow> error + nat" where
  "get_fmt_size lv w full_fmt =
     (if full_fmt = [] then Inr 0
      else if lv = None then struct_calcsize full_fmt
      else calcsize w full_fmt)"

text \<open>One round of the field loop of \<open>to_writer\<close>, for a field and its value.\<close>

definition pack_field ::
  "obj \<Rightarrow> ByteOrder \<Rightarrow> bool option \<Rightarrow> (string \<times> val) list \<Rightarrow> nat \<Rightarrow> Field \<Rightarrow> val
   \<Rightarrow> pack_state \<Rightarrow> error + pack_state" where
  "pack_field reserve_obj bo lv fvs start_offset f field_value st =
     (let md = metadata f
      in if should_skip md lv fvs then Inr st
         else
           (case (if \<not> bits_empty (ps_bits st) \<and> bit_count md = -1
                  then (case finish_field_buffer (ps_bits st) (ps_input st) of
                          (Inl e, bf, buf) \<Rightarrow> Inl e
                        | (Inr added, bf, buf) \<Rightarrow>
                            Inr (st\<lparr>ps_bits := bf, ps_input := buf, ps_fmt := ps_fmt st @ added\<rparr>))
                  else Inr st) of
              Inl e \<Rightarrow> Inl e
            | Inr st1 \<Rightarrow>
                (if bit_count md \<noteq> -1 then
                   (if asserted md \<noteq> [] \<and> \<not> py_in field_value (asserted md)
                    then Inl (ValueError (NotAsserted field_value (asserted md)))
                    else
                      (case int_of_val field_value of
                         Inl e \<Rightarrow> Inl e
                       | Inr x \<Rightarrow>
                           (case write_to_buffer (ps_bits st1) (ps_input st1) x (bit_count md) (fmt md) of
                              (Inl e, bf, buf) \<Rightarrow> Inl e
                            | (Inr added, bf, buf) \<Rightarrow>
                                Inr (st1\<lparr>ps_bits := bf, ps_input := buf,
                                         ps_fmt := ps_fmt st1 @ added\<rparr>))))
                 else if field_value = VNone \<and> single_asserted md = VNone then
                   (case get_fmt_size lv (ps_writer st1) (ps_fmt st1) of
                      Inl e \<Rightarrow> Inl e
                    | Inr sz \<Rightarrow>
                        (case mark_reserved_offset (ps_writer st1) (field_name f)
                                (value_of bo @ fmt md) (start_offset + sz) (Some reserve_obj) of
                           (Some e, w') \<Rightarrow> Inl e
                         | (None, w') \<Rightarrow>
                             (case calcsize w' (value_of bo @ fmt md) of
                                Inl e \<Rightarrow> Inl e
                              | Inr null_size \<Rightarrow>
                                  Inr (st1\<lparr>ps_writer := w',
                                           ps_input := ps_input st1 @ [VBytes (replicate null_size 0)],
                                           ps_fmt := ps_fmt st1 @ str_of_nat null_size @ ''s''\<rparr>))))
                 else
                   (case get_packer md (ps_input st1)
                           (if field_value = VNone then single_asserted md else field_value) of
                      Inl e \<Rightarrow> Inl e
                    | Inr inp \<Rightarrow> Inr (st1\<lparr>ps_input := inp, ps_fmt := ps_fmt st1 @ fmt md\<rparr>)))))"

text \<open>The value the loop pairs with a field: its entry in \<open>field_values\<close>.\<close>

definition field_value :: "(string \<times> val) list \<Rightarrow> Field \<Rightarrow> val" where
  "field_value fvs f = (case dict_get fvs (field_name f) of None \<Rightarrow> VNone | Some v \<Rightarrow> v)"

fun pack_fields ::
  "obj \<Rightarrow> ByteOrder \<Rightarrow> bool option \<Rightarrow> (string \<times> val) list \<Rightarrow> nat \<Rightarrow> Field list
   \<Rightarrow> pack_state \<Rightarrow> error + pack_state" where
  "pack_fields reserve_obj bo lv fvs start_offset [] st = Inr st"
| "pack_fields reserve_obj bo lv fvs start_offset (f # fs) st =
     (case pack_field reserve_obj bo lv fvs start_offset f (field_value fvs f) st of
        Inl e \<Rightarrow> Inl e
      | Inr st' \<Rightarrow> pack_fields reserve_obj bo lv fvs start_offset fs st')"

text \<open>
  \<open>to_writer\<close>. The byte order is the argument, else the instance's, else the writer's,
  else little-endian; only a byte order that was not passed as the argument is written
  into an existing writer. A new writer is built with the byte order only, so its width
  flag is the constructor's default \<open>True\<close>. The final \<open>pack\<close> parses the format with the
  writer's byte order and width flag.
\<close>

definition to_writer ::
  "StructClass \<Rightarrow> BinaryStruct \<Rightarrow> BinaryWriter option \<Rightarrow> obj option \<Rightarrow> ByteOrder option
   \<Rightarrow> error + BinaryWriter" where
  "to_writer c self writer_arg reserve_obj_arg bo_arg =
     (let reserve_obj = (case reserve_obj_arg of None \<Rightarrow> (cls_name c, ident self) | Some ob \<Rightarrow> ob);
          bo = (case bo_arg of
                  Some b \<Rightarrow> b
                | None \<Rightarrow>
                    (case byte_order self of
                       Some b \<Rightarrow> b
                     | None \<Rightarrow>
                         (case writer_arg of
                            Some w \<Rightarrow> default_byte_order w
                          | None \<Rightarrow> LittleEndian)));
          writer1 = (case writer_arg of
                       None \<Rightarrow> None
                     | Some w \<Rightarrow>
                         if bo_arg = None \<and> default_byte_order w \<noteq> bo
                         then Some (w\<lparr>default_byte_order := bo\<rparr>) else Some w);
          lv = (case (self_long_varints self, writer1) of
                  (None, Some w) \<Rightarrow> long_varints w
                | _ \<Rightarrow> self_long_varints self);
          writer = (case writer1 of None \<Rightarrow> new_writer bo (Some True) | Some w \<Rightarrow> w);
          fvs = map (\<lambda>f. (field_name f, getattr self (field_name f))) (FIELDS c)
      in case pack_fields reserve_obj bo lv fvs (position writer) (FIELDS c)
                \<lparr>ps_writer = writer, ps_bits = new_bits, ps_fmt = [], ps_input = []\<rparr> of
           Inl e \<Rightarrow> Inl e
         | Inr st \<Rightarrow>
             (case pack (ps_writer st) (ps_fmt st) (ps_input st) of
                (Some e, w') \<Rightarrow> Inl e
              | (None, w') \<Rightarrow>
                  (case writer_arg of
                     Some w \<Rightarrow>
                       if bo_arg = None \<and> default_byte_order w \<noteq> bo
                       then Inr (w'\<lparr>default_byte_order := bo\<rparr>) else Inr w'
                   | None \<Rightarrow> Inr w')))"

definition to_bytes ::
  "StructClass \<Rightarrow> BinaryStruct \<Rightarrow> ByteOrder option \<Rightarrow> bool option \<Rightarrow> error + byte list" where
  "to_bytes c self bo_arg lv_arg =
     (let self1 = (case bo_arg of None \<Rightarrow> self | Some b \<Rightarrow> self\<lparr>byte_order := Some b\<rparr>);
          self2 = (case lv_arg of None \<Rightarrow> self1 | Some b \<Rightarrow> self1\<lparr>self_long_varints := Some b\<rparr>)
      in case to_writer c self2 None None None of
           Inl e \<Rightarrow> Inl e
         | Inr w \<Rightarrow>
             if reserved w \<noteq> [] then Inl (ValueError (CannotFill (dict_keys (reserved w))))
             else to_bytes_writer w)"

text \<open>\<open>BinaryStruct.fill\<close>: fill the reservation made for this instance.\<close>

definition struct_fill ::
  "StructClass \<Rightarrow> BinaryStruct \<Rightarrow> BinaryWriter \<Rightarrow> string \<Rightarrow> val list
   \<Rightarrow> error option \<times> BinaryWriter" where
  "struct_fill c self w nm vals = fill w nm vals (Some (cls_name c, ident self))"

subsection \<open>Fields that pack as ordinary wire fields\<close>

text \<open>
  \<open>encodes bo wlv g v\<close>: the engine packs the field \<open>g\<close> holding \<open>v\<close> as an ordinary
  wire field, under the byte order \<open>bo\<close> and the writer's width flag \<open>wlv\<close>. The field
  has no bit count and no skip predicate; it has a value, its own or the single
  asserted one; its packer accepts the value; and its format encodes the raw values the
  packer produces.
\<close>

definition encodes :: "ByteOrder \<Rightarrow> bool option \<Rightarrow> Field \<Rightarrow> val \<Rightarrow> bool" where
  "encodes bo wlv g v =
     (bit_count (metadata g) = -1 \<and> should_skip_func (metadata g) = None
      \<and> (v = VNone \<longrightarrow> single_asserted (metadata g) \<noteq> VNone)
      \<and> (case get_packer (metadata g) [] (if v = VNone then single_asserted (metadata g) else v) of
            Inl e \<Rightarrow> False
          | Inr vs \<Rightarrow>
              (case struct_pack (value_of bo @ resolve_varints wlv (fmt (metadata g))) vs of
                 Inl e \<Rightarrow> False
               | Inr bs \<Rightarrow> True)))"

section \<open>Writers reached through the writer's own methods\<close>

text \<open>
  The writers a program can hold when it touches a writer only through its methods:
  a fresh one, and the one each method leaves behind, whether it returned or raised.
\<close>

inductive reachable :: "BinaryWriter \<Rightarrow> bool" where
  init: "reachable (new_writer bo lv)"
| after_pack: "reachable w \<Longrightarrow> reachable (snd (pack w fm vals))"
| after_reserve: "reachable w \<Longrightarrow> reachable (snd (reserve w name fm ob))"
| after_mark: "reachable w \<Longrightarrow> reachable (snd (mark_reserved_offset w name fm off ob))"
| after_fill: "reachable w \<Longrightarrow> reachable (snd (fill w name vals ob))"
| after_z: "reachable w \<Longrightarrow> reachable (pack_z_string w bs enc)"

section \<open>Example inputs\<close>

definition ex_w0 :: BinaryWriter where
  "ex_w0 = new_writer LittleEndian (Some True)"

text \<open>A writer holding one byte and one two-byte reservation \<open>a\<close> at offset 1.\<close>

definition ex_w1 :: BinaryWriter where
  "ex_w1 = snd (reserve (snd (pack ex_w0 ''B'' [VInt 7])) ''a'' ''H'' None)"

definition ex_w2 :: BinaryWriter where
  "ex_w2 = snd (fill ex_w1 ''a'' [VInt 258] None)"

text \<open>A codec whose hooks shift an integer by one and whose only legal value is 5.\<close>

definition ex_inc :: "val \<Rightarrow> error + val" where
  "ex_inc v = (case v of VInt i \<Rightarrow> Inr (VInt (i + 1)) | _ \<Rightarrow> Inl HookError)"

definition ex_dec :: "val \<Rightarrow> error + val" where
  "ex_dec v = (case v of VInt i \<Rightarrow> Inr (VInt (i - 1)) | _ \<Rightarrow> Inl HookError)"


text \<open>Fields without assertions, hooks or skip predicates, on the wire or in a bit group.\<close>

definition ex_plain :: "string \<Rightarrow> string \<Rightarrow> Field" where
  "ex_plain nm fm =
     \<lparr>field_name = nm, field_init = True, field_type = IntType,
      metadata = \<lparr>fmt = fm, asserted = [], unpack_func = None, pack_func = None,
                  bit_count = -1, should_skip_func = None, kind = Plain\<rparr>\<rparr>"

definition ex_bit :: "string \<Rightarrow> string \<Rightarrow> int \<Rightarrow> Field" where
  "ex_bit nm fm n =
     \<lparr>field_name = nm, field_init = True, field_type = IntType,
      metadata = \<lparr>fmt = fm, asserted = [], unpack_func = None, pack_func = None,
                  bit_count = n, should_skip_func = None, kind = Plain\<rparr>\<rparr>"

definition ex_instance :: "(string \<times> val) list \<Rightarrow> bool option \<Rightarrow> BinaryStruct" where
  "ex_instance vs lv = \<lparr>attrs = vs, byte_order = None, self_long_varints = lv, ident = 42\<rparr>"

text \<open>A byte followed by a three-bit field that is the last field of its record.\<close>

definition ex_trailing_bits :: StructClass where
  "ex_trailing_bits = \<lparr>cls_name = ''S'', FIELDS = [ex_plain ''a'' ''B'', ex_bit ''f'' ''B'' 3]\<rparr>"

text \<open>A record of one \<open>varint\<close> field.\<close>

definition ex_varint :: StructClass where
  "ex_varint = \<lparr>cls_name = ''S'', FIELDS = [ex_plain ''n'' ''v'']\<rparr>"



text \<open>A header whose middle field, an offset, is left absent; the width flag is resolved.\<close>

definition ex_header :: StructClass where
  "ex_header =
     \<lparr>cls_name = ''S'', FIELDS = [ex_plain ''a'' ''B'', ex_plain ''off'' ''I'', ex_plain ''z'' ''H'']\<rparr>"

definition ex_header_absent :: BinaryStruct where
  "ex_header_absent = ex_instance [(''a'', VInt 1), (''off'', VNone), (''z'', VInt 772)] (Some True)"

text \<open>A record of one byte whose convert-out hook subtracts one.\<close>

definition ex_hooked :: StructClass where
  "ex_hooked =
     \<lparr>cls_name = ''S'',
      FIELDS = [(ex_plain ''x'' ''B'')\<lparr>metadata :=
                  (metadata (ex_plain ''x'' ''B''))\<lparr>unpack_func := Some ex_inc,
                                                    pack_func := Some ex_dec\<rparr>\<rparr>]\<rparr>"


section \<open>Auxiliary facts\<close>

lemma dict_set_keys:
  "k \<notin> set (dict_keys d) \<Longrightarrow> dict_keys (dict_set d k v) = dict_keys d @ [k]"
  by (induction d) (auto simp: dict_keys_def)

lemma dict_pop_keys: "dict_keys (dict_pop d k) = filter (\<lambda>x. x \<noteq> k) (dict_keys d)"
  by (induction d) (auto simp: dict_keys_def dict_pop_def)

lemma dict_get_None_iff: "dict_get d k = None \<longleftrightarrow> k \<notin> set (dict_keys d)"
  by (simp add: dict_get_def dict_keys_def map_of_eq_None_iff)




lemma split_mode_value_of:
  "split_mode (value_of bo @ s) = ((bo = NativeAutoAligned, bo = BigEndian \<or> bo = Network), s)"
  by (cases bo) simp_all

lemma size_tokens_unaligned:
  "size_tokens False ts off = off + (\<Sum>(cnt, c)\<leftarrow>ts. count_of cnt * item_size c)"
  by (induction ts arbitrary: off) (auto simp: align_pad_def)

lemma replace_char_absent: "a \<notin> set s \<Longrightarrow> replace_char a b s = s"
  by (induction s) (auto simp: replace_char_def)

lemma replace_char_append: "replace_char a b (s @ t) = replace_char a b s @ replace_char a b t"
  by (simp add: replace_char_def)

lemma replace_char_value_of: "a \<in> set ''vV'' \<Longrightarrow> replace_char a b (value_of bo) = value_of bo"
  by (cases bo) (auto simp: replace_char_def)

lemma tokens_append:
  "tokens a acc = Inr ta \<Longrightarrow>
   tokens (a @ b) acc = (case tokens b None of Inl e \<Rightarrow> Inl e | Inr tb \<Rightarrow> Inr (ta @ tb))"
proof (induction a acc arbitrary: ta rule: tokens.induct)
  case 1
  then show ?case by (simp split: sum.splits)
next
  case (2 n)
  then show ?case by simp
next
  case (3 c cs acc)
  show ?case
  proof (cases "is_digit c")
    case True
    with 3 show ?thesis by simp
  next
    case nd: False
    show ?thesis
    proof (cases "is_space c \<and> acc = None")
      case True
      with 3 nd show ?thesis by simp
    next
      case ns: False
      with 3(4) nd obtain ts where cs: "code_size c \<noteq> None" "tokens cs None = Inr ts" "ta = (acc, c) # ts"
        by (auto split: if_splits sum.splits)
      from 3(3)[OF nd ns _ cs(2)] cs(1)
      have "tokens (cs @ b) None = (case tokens b None of Inl e \<Rightarrow> Inl e | Inr tb \<Rightarrow> Inr (ts @ tb))"
        by simp
      with nd ns cs show ?thesis by (auto split: sum.splits)
    qed
  qed
qed

lemma digit_char: "d < 10 \<Longrightarrow> is_digit (''0123456789'' ! d) \<and> digit_val (''0123456789'' ! d) = d"
proof -
  assume "d < 10"
  then have "d \<in> {0,1,2,3,4,5,6,7,8,9}" by auto
  then show ?thesis by (auto simp: is_digit_def digit_val_def)
qed

lemma tokens_str_of_nat:
  "tokens (str_of_nat n @ s) acc
     = tokens s (Some (10 ^ length (str_of_nat n) * (case acc of None \<Rightarrow> 0 | Some a \<Rightarrow> a) + n))"
proof (induction n arbitrary: acc s rule: str_of_nat.induct)
  case (1 n)
  show ?case
  proof (cases "n < 10")
    case True
    then have "str_of_nat n = [''0123456789'' ! n]" by (subst str_of_nat.simps) simp
    then show ?thesis using digit_char[OF True] by simp
  next
    case False
    have d: "is_digit (''0123456789'' ! (n mod 10))" "digit_val (''0123456789'' ! (n mod 10)) = n mod 10"
      using digit_char[of "n mod 10"] by simp_all
    have "tokens (str_of_nat n @ s) acc = tokens (str_of_nat (n div 10) @ (''0123456789'' ! (n mod 10) # s)) acc"
      using False by (subst str_of_nat.simps) simp
    also have "\<dots> = tokens (''0123456789'' ! (n mod 10) # s)
        (Some (10 ^ length (str_of_nat (n div 10)) * (case acc of None \<Rightarrow> 0 | Some a \<Rightarrow> a) + n div 10))"
      by (rule 1[OF False])
    also have "\<dots> = tokens s (Some (10 * (10 ^ length (str_of_nat (n div 10)) * (case acc of None \<Rightarrow> 0 | Some a \<Rightarrow> a) + n div 10) + n mod 10))"
      using d by simp
    also have "length (str_of_nat n) = Suc (length (str_of_nat (n div 10)))"
      using False by (subst str_of_nat.simps) simp
    ultimately show ?thesis by (simp add: algebra_simps)
  qed
qed

lemma tokens_count_s:
  "tokens (str_of_nat n @ ''s'' @ rest) None
     = (case tokens rest None of Inl e \<Rightarrow> Inl e | Inr ts \<Rightarrow> Inr ((Some n, CHR ''s'') # ts))"
  by (simp add: tokens_str_of_nat is_digit_def is_space_def code_size_def)

lemma pack_tokens_off: "pack_tokens False be ts vs off = pack_tokens False be ts vs 0"
proof (induction ts arbitrary: vs off)
  case Nil
  show ?case by simp
next
  case (Cons t ts)
  obtain cnt c where t: "t = (cnt, c)" by (cases t)
  define g where "g = (\<lambda>ws. pack_tokens False be ts ws 0)"
  have *: "pack_tokens False be ts ws k = g ws" for ws k
    unfolding g_def by (rule Cons.IH)
  show ?case unfolding t
    by (simp add: Let_def align_pad_def * cong: list.case_cong val.case_cong sum.case_cong)
qed

lemma length_int_bytes: "length (int_bytes be n x) = n"
  by (simp add: int_bytes_def le_bytes_def)

lemma length_pack_item: "pack_item be c v = Inr bs \<Longrightarrow> length bs = item_size c"
proof (cases "c = CHR ''?''")
  case True
  assume "pack_item be c v = Inr bs"
  with True show ?thesis by (auto simp: item_size_def code_size_def)
next
  case False
  assume "pack_item be c v = Inr bs"
  with False show ?thesis
    by (cases v) (auto simp: length_int_bytes split: if_splits)
qed

lemma length_pack_items:
  "pack_items be c vs = Inr bs \<Longrightarrow> length bs = length vs * item_size c"
proof (induction vs arbitrary: bs)
  case Nil
  then show ?case by simp
next
  case (Cons v vs)
  from Cons.prems obtain b1 b2 where 1: "pack_item be c v = Inr b1"
    and 2: "pack_items be c vs = Inr b2" and 3: "bs = b1 @ b2"
    by (auto split: sum.splits)
  show ?case using length_pack_item[OF 1] Cons.IH[OF 2] 3 by simp
qed


lemma length_pad_to: "length (pad_to n bs) = n"
  by (simp add: pad_to_def)

lemma item_size_sx: "item_size CHR ''s'' = 1" "item_size CHR ''x'' = 1"
  by (simp_all add: item_size_def code_size_def)

lemma length_pack_tokens:
  "pack_tokens False be ts vs off = Inr out \<Longrightarrow>
   length out = (\<Sum>(cnt, c)\<leftarrow>ts. count_of cnt * item_size c)"
proof (induction ts arbitrary: vs off out)
  case Nil
  then show ?case by (simp split: if_splits)
next
  case (Cons t ts)
  obtain cnt c where t: "t = (cnt, c)" by (cases t)
  note p = Cons.prems[unfolded t]
  consider (x) "c = CHR ''x''" | (s) "c = CHR ''s''" | (i) "c \<noteq> CHR ''x''" "c \<noteq> CHR ''s''"
    by blast
  then show ?case
  proof cases
    case x
    with p obtain out' where 1: "pack_tokens False be ts vs (off + count_of cnt) = Inr out'"
      and 2: "out = replicate (count_of cnt) 0 @ out'"
      by (auto simp: Let_def align_pad_def split: sum.splits)
    show ?thesis using Cons.IH[OF 1] 2 by (simp add: t x item_size_sx)
  next
    case s
    with p obtain bs rest out' where 0: "vs = VBytes bs # rest"
      and 1: "pack_tokens False be ts rest (off + count_of cnt) = Inr out'"
      and 2: "out = pad_to (count_of cnt) bs @ out'"
      by (auto simp: Let_def align_pad_def split: sum.splits list.splits val.splits)
    show ?thesis using Cons.IH[OF 1] 2 by (simp add: t s item_size_sx length_pad_to)
  next
    case i
    with p obtain body out' where 0: "pack_items be c (take (count_of cnt) vs) = Inr body"
      and l: "count_of cnt \<le> length vs"
      and 1: "pack_tokens False be ts (drop (count_of cnt) vs) (off + length body) = Inr out'"
      and 2: "out = body @ out'"
      by (auto simp: Let_def align_pad_def split: sum.splits if_splits)
    show ?thesis using Cons.IH[OF 1] 2 length_pack_items[OF 0] l by (simp add: t)
  qed
qed

lemma pack_tokens_append:
  "pack_tokens False be ts1 v1 off = Inr o1 \<Longrightarrow>
   pack_tokens False be (ts1 @ ts2) (v1 @ v2) off =
     (case pack_tokens False be ts2 v2 0 of Inl e \<Rightarrow> Inl e | Inr o2 \<Rightarrow> Inr (o1 @ o2))"
proof (induction ts1 arbitrary: v1 off o1)
  case Nil
  then have "v1 = []" "o1 = []" by (auto split: if_splits)
  then show ?case using pack_tokens_off[of be ts2 v2 off] by (simp split: sum.splits)
next
  case (Cons t ts)
  obtain cnt c where t: "t = (cnt, c)" by (cases t)
  note p = Cons.prems[unfolded t]
  consider (x) "c = CHR ''x''" | (s) "c = CHR ''s''" | (i) "c \<noteq> CHR ''x''" "c \<noteq> CHR ''s''"
    by blast
  then show ?case
  proof cases
    case x
    with p obtain out' where 1: "pack_tokens False be ts v1 (off + count_of cnt) = Inr out'"
      and 2: "o1 = replicate (count_of cnt) 0 @ out'"
      by (auto simp: Let_def align_pad_def split: sum.splits)
    show ?thesis using Cons.IH[OF 1] 2
      by (simp add: t x Let_def align_pad_def split: sum.splits)
  next
    case s
    with p obtain bs rest out' where 0: "v1 = VBytes bs # rest"
      and 1: "pack_tokens False be ts rest (off + count_of cnt) = Inr out'"
      and 2: "o1 = pad_to (count_of cnt) bs @ out'"
      by (auto simp: Let_def align_pad_def split: sum.splits list.splits val.splits)
    show ?thesis using Cons.IH[OF 1] 0 2
      by (simp add: t s Let_def align_pad_def split: sum.splits)
  next
    case i
    with p obtain body out' where 0: "pack_items be c (take (count_of cnt) v1) = Inr body"
      and l: "count_of cnt \<le> length v1"
      and 1: "pack_tokens False be ts (drop (count_of cnt) v1) (off + length body) = Inr out'"
      and 2: "o1 = body @ out'"
      by (auto simp: Let_def align_pad_def split: sum.splits if_splits)
    show ?thesis using Cons.IH[OF 1] 0 l 2 i
      by (simp add: t Let_def align_pad_def split: sum.splits)
  qed
qed

lemma struct_pack_value_of:
  "bo \<noteq> NativeAutoAligned \<Longrightarrow>
   struct_pack (value_of bo @ body) vs =
     (case tokens body None of
        Inl e \<Rightarrow> Inl e
      | Inr ts \<Rightarrow> pack_tokens False (bo = BigEndian \<or> bo = Network) ts vs 0)"
  by (simp add: struct_pack_def split_mode_value_of)

lemma struct_calcsize_value_of:
  "bo \<noteq> NativeAutoAligned \<Longrightarrow>
   struct_calcsize (value_of bo @ body) =
     (case tokens body None of
        Inl e \<Rightarrow> Inl e
      | Inr ts \<Rightarrow> Inr (\<Sum>(cnt, c)\<leftarrow>ts. count_of cnt * item_size c))"
  by (simp add: struct_calcsize_def split_mode_value_of size_tokens_unaligned split: sum.splits)

lemma struct_pack_calcsize:
  assumes "bo \<noteq> NativeAutoAligned" and "struct_pack (value_of bo @ body) vs = Inr out"
  shows "struct_calcsize (value_of bo @ body) = Inr (length out)"
  using assms
  by (auto simp: struct_pack_value_of struct_calcsize_value_of length_pack_tokens split: sum.splits)

lemma struct_pack_append:
  assumes "bo \<noteq> NativeAutoAligned" and "struct_pack (value_of bo @ a) va = Inr oa"
  shows "struct_pack (value_of bo @ a @ b) (va @ vb) =
           (case struct_pack (value_of bo @ b) vb of Inl e \<Rightarrow> Inl e | Inr ob \<Rightarrow> Inr (oa @ ob))"
proof -
  from assms obtain ta where ta: "tokens a None = Inr ta"
    and pa: "pack_tokens False (bo = BigEndian \<or> bo = Network) ta va 0 = Inr oa"
    by (auto simp: struct_pack_value_of split: sum.splits)
  show ?thesis
    using assms(1) pack_tokens_append[OF pa, of _ vb]
    by (simp add: struct_pack_value_of tokens_append[OF ta] split: sum.splits)
qed

lemma get_packer_append:
  "get_packer md inp v =
     (case get_packer md [] v of Inl e \<Rightarrow> Inl e | Inr vs \<Rightarrow> Inr (inp @ vs))"
  by (simp add: get_packer_def split: sum.splits md_kind.splits)

lemma resolve_varints_append:
  "resolve_varints lv (a @ b) = resolve_varints lv a @ resolve_varints lv b"
  by (simp add: resolve_varints_def replace_char_def)

lemma resolve_varints_value_of: "resolve_varints lv (value_of bo) = value_of bo"
  by (cases bo) (simp_all add: resolve_varints_def replace_char_def)

lemma pack_field_plain:
  assumes "encodes bo wlv g v" and "bits_empty (ps_bits st)"
    and "get_packer (metadata g) [] (if v = VNone then single_asserted (metadata g) else v) = Inr vs"
  shows "pack_field ob bo lv fvs start g v st
           = Inr (st\<lparr>ps_input := ps_input st @ vs, ps_fmt := ps_fmt st @ fmt (metadata g)\<rparr>)"
proof -
  from assms(1) have
    1: "bit_count (metadata g) = -1" "should_skip_func (metadata g) = None"
       "v = VNone \<longrightarrow> single_asserted (metadata g) \<noteq> VNone"
    by (auto simp: encodes_def)
  show ?thesis
    using 1 assms(2,3)
    by (cases "v = VNone")
      (simp_all add: pack_field_def Let_def should_skip_def get_packer_append[of _ "ps_input st"])
qed

lemma struct_pack_empty: "bo \<noteq> NativeAutoAligned \<Longrightarrow> struct_pack (value_of bo) [] = Inr []"
  using struct_pack_value_of[of bo "[]" "[]"] by simp

lemma pack_fields_plain:
  assumes "list_all (\<lambda>g. encodes bo wlv g (field_value fvs g)) gs" and "bo \<noteq> NativeAutoAligned"
  shows "\<exists>F I B. struct_pack (value_of bo @ resolve_varints wlv F) I = Inr B
           \<and> (\<forall>st ob lv start fvs'.
                 (\<forall>g \<in> set gs. field_value fvs' g = field_value fvs g) \<longrightarrow>
                 bits_empty (ps_bits st) \<longrightarrow>
                 pack_fields ob bo lv fvs' start gs st
                   = Inr (st\<lparr>ps_input := ps_input st @ I, ps_fmt := ps_fmt st @ F\<rparr>))"
  using assms(1)
proof (induction gs)
  case Nil
  have "struct_pack (value_of bo @ resolve_varints wlv []) [] = Inr []"
    using struct_pack_empty[OF assms(2)] by (simp add: resolve_varints_def replace_char_def)
  moreover have "\<forall>st ob lv start fvs'.
                 (\<forall>g \<in> set []. field_value fvs' g = field_value fvs g) \<longrightarrow>
                 bits_empty (ps_bits st) \<longrightarrow>
                 pack_fields ob bo lv fvs' start [] st
                   = Inr (st\<lparr>ps_input := ps_input st @ [], ps_fmt := ps_fmt st @ []\<rparr>)"
    by simp
  ultimately show ?case by blast
next
  case (Cons g gs)
  from Cons.prems have eg: "encodes bo wlv g (field_value fvs g)"
    and rest: "list_all (\<lambda>g. encodes bo wlv g (field_value fvs g)) gs"
    by simp_all
  from Cons.IH[OF rest] obtain F I B where
    sp: "struct_pack (value_of bo @ resolve_varints wlv F) I = Inr B"
    and lp: "\<And>st ob lv start fvs'.
                 (\<forall>g \<in> set gs. field_value fvs' g = field_value fvs g) \<Longrightarrow>
                 bits_empty (ps_bits st) \<Longrightarrow>
                 pack_fields ob bo lv fvs' start gs st
                   = Inr (st\<lparr>ps_input := ps_input st @ I, ps_fmt := ps_fmt st @ F\<rparr>)"
    by blast
  from eg obtain vs bs where
    gp: "get_packer (metadata g) []
           (if field_value fvs g = VNone then single_asserted (metadata g) else field_value fvs g)
         = Inr vs"
    and gs: "struct_pack (value_of bo @ resolve_varints wlv (fmt (metadata g))) vs = Inr bs"
    by (auto simp: encodes_def split: sum.splits)
  have comb: "struct_pack (value_of bo @ resolve_varints wlv (fmt (metadata g) @ F)) (vs @ I)
                = Inr (bs @ B)"
    using struct_pack_append[OF assms(2) gs, of "resolve_varints wlv F" I] sp
    by (simp add: resolve_varints_append)
  have loop: "pack_fields ob bo lv fvs' start (g # gs) st
                = Inr (st\<lparr>ps_input := ps_input st @ (vs @ I),
                          ps_fmt := ps_fmt st @ (fmt (metadata g) @ F)\<rparr>)"
    if a: "\<forall>h \<in> set (g # gs). field_value fvs' h = field_value fvs h"
      and b: "bits_empty (ps_bits st)" for st ob lv start fvs'
  proof -
    let ?st1 = "st\<lparr>ps_input := ps_input st @ vs, ps_fmt := ps_fmt st @ fmt (metadata g)\<rparr>"
    have v: "field_value fvs' g = field_value fvs g" using a by simp
    have 1: "pack_field ob bo lv fvs' start g (field_value fvs' g) st = Inr ?st1"
      unfolding v by (rule pack_field_plain[OF eg b gp])
    have 2: "pack_fields ob bo lv fvs' start gs ?st1
               = Inr (?st1\<lparr>ps_input := ps_input ?st1 @ I, ps_fmt := ps_fmt ?st1 @ F\<rparr>)"
      using a b by (intro lp) simp_all
    show ?thesis using 1 2 by simp
  qed
  from comb loop show ?case by blast
qed


section \<open>Properties of the compiled field codecs\<close>




section \<open>Properties of the reservation ledger\<close>




lemma join_sublist: "k \<in> set ks \<Longrightarrow> sublist k (join sep ks)"
proof (induction sep ks rule: join.induct)
  case (3 sep x y ys)
  show ?case
  proof (cases "k = x")
    case True
    then show ?thesis by simp
  next
    case False
    with 3 have "sublist k (join sep (y # ys))" by simp
    then obtain ps ss where "join sep (y # ys) = ps @ k @ ss" by (auto simp: sublist_def)
    then have "join sep (x # y # ys) = (x @ sep @ ps) @ k @ ss" by simp
    then show ?thesis unfolding sublist_def by blast
  qed
qed simp_all

lemma reserved_pack: "reserved (snd (pack w fm vals)) = reserved w"
  by (simp add: pack_def split: sum.splits)

lemma distinct_reserve:
  "distinct (dict_keys (reserved w)) \<Longrightarrow>
   distinct (dict_keys (reserved (snd (reserve w name fm ob))))"
  by (auto simp: reserve_def Let_def dict_set_keys split: sum.splits)

lemma distinct_mark:
  "distinct (dict_keys (reserved w)) \<Longrightarrow>
   distinct (dict_keys (reserved (snd (mark_reserved_offset w name fm off ob))))"
  by (auto simp: mark_reserved_offset_def Let_def dict_set_keys split: sum.splits)

lemma distinct_fill:
  "distinct (dict_keys (reserved w)) \<Longrightarrow>
   distinct (dict_keys (reserved (snd (fill w name vals ob))))"
  by (auto simp: fill_def Let_def dict_pop_keys
      split: sum.splits option.splits error.splits prod.splits)

lemma reachable_distinct: "reachable w \<Longrightarrow> distinct (dict_keys (reserved w))"
proof (induction rule: reachable.induct)
  case (init bo lv)
  show ?case by (simp add: new_writer_def dict_keys_def)
next
  case (after_pack w fm vals)
  then show ?case by (simp add: reserved_pack)
next
  case (after_reserve w name fm ob)
  then show ?case by (simp add: distinct_reserve)
next
  case (after_mark w name fm off ob)
  then show ?case by (simp add: distinct_mark)
next
  case (after_fill w name vals ob)
  then show ?case by (simp add: distinct_fill)
next
  case (after_z w bs enc)
  then show ?case by (simp add: pack_z_string_def Let_def)
qed

lemma fill_unknown:
  "reserve_name ob name \<notin> set (dict_keys (reserved w)) \<Longrightarrow>
   \<exists>r. fill w name vals ob = (Some (ValueError r), w)"
  by (auto simp: fill_def Let_def dict_get_None_iff[symmetric] split: option.splits prod.splits)

lemma fill_ok_removes:
  "fill w name vals ob = (None, w') \<Longrightarrow> reserve_name ob name \<notin> set (dict_keys (reserved w'))"
  by (auto simp: fill_def Let_def dict_pop_keys
      split: if_splits option.splits prod.splits sum.splits error.splits)

text \<open>
  Claim C5. The ledger's error conditions. (1) \<open>reserve\<close> and \<open>mark_reserved_offset\<close>
  under a name already in the ledger raise a \<open>ValueError\<close> and leave the writer as it
  was. (2) \<open>fill\<close> under a name not in the ledger raises a \<open>ValueError\<close>. (3) After a
  successful \<open>fill\<close>, a second \<open>fill\<close> of the same name raises. (4) \<open>__bytes__\<close> on a
  writer whose ledger is not empty raises a \<open>ValueError\<close> whose text contains every
  outstanding name. (5) No writer reached through the writer's methods holds a name
  twice.
\<close>

theorem ledger_errors:
  "(reserve_name ob name \<in> set (dict_keys (reserved w)) \<longrightarrow>
      reserve w name fm ob = (Some (ValueError (AlreadyReserved (reserve_name ob name))), w) \<and>
      mark_reserved_offset w name fm off ob
        = (Some (ValueError (AlreadyReserved (reserve_name ob name))), w))
   \<and> (reserve_name ob2 name2 \<notin> set (dict_keys (reserved w2)) \<longrightarrow>
        (\<exists>r. fill w2 name2 vals2 ob2 = (Some (ValueError r), w2)))
   \<and> (fill w3 name3 vals3 ob3 = (None, w3') \<longrightarrow>
        (\<exists>r. fill w3' name3 vals3' ob3 = (Some (ValueError r), w3')))
   \<and> (reserved w4 \<noteq> [] \<longrightarrow>
        (\<exists>msg. to_bytes_writer w4 = Inl (ValueError (NotFilled msg)) \<and>
               (\<forall>k \<in> set (dict_keys (reserved w4)). sublist k msg)))
   \<and> (reachable w5 \<longrightarrow> distinct (dict_keys (reserved w5)))"
proof (intro conjI impI)
  assume "reserve_name ob name \<in> set (dict_keys (reserved w))"
  then show "reserve w name fm ob = (Some (ValueError (AlreadyReserved (reserve_name ob name))), w)"
    and "mark_reserved_offset w name fm off ob
        = (Some (ValueError (AlreadyReserved (reserve_name ob name))), w)"
    by (simp_all add: reserve_def mark_reserved_offset_def Let_def)
next
  assume "reserve_name ob2 name2 \<notin> set (dict_keys (reserved w2))"
  then show "\<exists>r. fill w2 name2 vals2 ob2 = (Some (ValueError r), w2)" by (rule fill_unknown)
next
  assume "fill w3 name3 vals3 ob3 = (None, w3')"
  then have "reserve_name ob3 name3 \<notin> set (dict_keys (reserved w3'))" by (rule fill_ok_removes)
  then show "\<exists>r. fill w3' name3 vals3' ob3 = (Some (ValueError r), w3')" by (rule fill_unknown)
next
  assume "reserved w4 \<noteq> []"
  then show "\<exists>msg. to_bytes_writer w4 = Inl (ValueError (NotFilled msg)) \<and>
               (\<forall>k \<in> set (dict_keys (reserved w4)). sublist k msg)"
    by (simp add: to_bytes_writer_def join_sublist)
next
  assume "reachable w5"
  then show "distinct (dict_keys (reserved w5))" by (rule reachable_distinct)
qed

lemma ex_w1_eq:
  "ex_w1 = \<lparr>default_byte_order = LittleEndian, long_varints = Some True, array = [7, 0, 0],
            reserved = [(''a'', 1, ''<H'')]\<rparr>"
  by code_simp

lemma ex_w2_eq:
  "ex_w2 = \<lparr>default_byte_order = LittleEndian, long_varints = Some True, array = [7, 2, 1],
            reserved = []\<rparr>"
  by code_simp

lemma ex_w1_reachable: "reachable ex_w1"
  unfolding ex_w1_def ex_w0_def by (intro reachable.intros)

theorem ledger_errors_witness:
  "reserve ex_w1 ''a'' ''I'' None = (Some (ValueError (AlreadyReserved ''a'')), ex_w1)
   \<and> mark_reserved_offset ex_w1 ''a'' ''I'' 0 None = (Some (ValueError (AlreadyReserved ''a'')), ex_w1)
   \<and> (\<exists>r. fill ex_w1 ''b'' [VInt 1] None = (Some (ValueError r), ex_w1))
   \<and> fill ex_w1 ''a'' [VInt 258] None = (None, ex_w2)
   \<and> (\<exists>r. fill ex_w2 ''a'' [VInt 1] None = (Some (ValueError r), ex_w2))
   \<and> (\<exists>msg. to_bytes_writer ex_w1 = Inl (ValueError (NotFilled msg)) \<and> sublist ''a'' msg)
   \<and> distinct (dict_keys (reserved ex_w1))"
proof -
  have h1: "reserve_name None ''a'' \<in> set (dict_keys (reserved ex_w1))"
    by (simp add: ex_w1_eq reserve_name_def dict_keys_def)
  have h2: "reserve_name None ''b'' \<notin> set (dict_keys (reserved ex_w1))"
    by (simp add: ex_w1_eq reserve_name_def dict_keys_def)
  have h3: "fill ex_w1 ''a'' [VInt 258] None = (None, ex_w2)"
    unfolding ex_w2_eq unfolding ex_w1_eq by code_simp
  have h4: "reserved ex_w1 \<noteq> []" by (simp add: ex_w1_eq)
  have k: "dict_keys (reserved ex_w1) = [''a'']" by (simp add: ex_w1_eq dict_keys_def)
  show ?thesis
    using ledger_errors [where ob = None and name = "''a''" and w = ex_w1 and fm = "''I''"
        and off = 0 and ?ob2.0 = None and ?name2.0 = "''b''" and ?w2.0 = ex_w1
        and ?vals2.0 = "[VInt 1]" and ?w3.0 = ex_w1 and ?name3.0 = "''a''"
        and ?vals3.0 = "[VInt 258]" and ?ob3.0 = None and w3' = ex_w2 and vals3' = "[VInt 1]"
        and ?w4.0 = ex_w1 and ?w5.0 = ex_w1]
      h1 h2 h3 h4 ex_w1_reachable
    by (simp add: k reserve_name_def)
qed

text \<open>
  Claim C10. \<open>fill\<close> is atomic on error: when the reservation for the name is present
  and the given values do not encode with the reservation's stored format, \<open>fill\<close>
  raises and the writer (buffer and ledger) is unchanged, the reservation is still there,
  and a later \<open>fill\<close> of the same name with values that do encode succeeds, overwriting
  the reserved span and removing the reservation.
\<close>

theorem fill_atomic:
  assumes "dict_get (reserved w) (reserve_name ob name) = Some (offset, f)"
    and "struct_pack f vals = Inl e"
  shows "(\<exists>e'. fill w name vals ob = (Some e', w))
         \<and> dict_get (reserved (snd (fill w name vals ob))) (reserve_name ob name) = Some (offset, f)
         \<and> (good \<noteq> [] \<and> struct_pack f good = Inr packed \<longrightarrow>
              fill (snd (fill w name vals ob)) name good ob
                = (None, w\<lparr>array := take offset (array w) @ packed
                                       @ drop (offset + length packed) (array w),
                           reserved := dict_pop (reserved w) (reserve_name ob name)\<rparr>))"
proof -
  have 1: "\<exists>e'. fill w name vals ob = (Some e', w)"
    using assms by (cases e) (auto simp: fill_def Let_def)
  then have 2: "snd (fill w name vals ob) = w" by auto
  show ?thesis using 1 assms by (auto simp: 2 fill_def Let_def)
qed

theorem fill_atomic_witness:
  "fill ex_w1 ''a'' [VInt 70000] None = (Some (ValueError (FillPackFailed ''<H'' [VInt 70000])), ex_w1)
   \<and> dict_get (reserved (snd (fill ex_w1 ''a'' [VInt 70000] None))) ''a'' = Some (1, ''<H'')
   \<and> fill (snd (fill ex_w1 ''a'' [VInt 70000] None)) ''a'' [VInt 258] None = (None, ex_w2)"
proof -
  have h1: "dict_get (reserved ex_w1) (reserve_name None ''a'') = Some (1, ''<H'')"
    by (simp add: ex_w1_eq reserve_name_def dict_get_def)
  have h2: "struct_pack ''<H'' [VInt 70000] = Inl StructError" by code_simp
  have h3: "struct_pack ''<H'' [VInt 258] = Inr [2, 1]" by code_simp
  have f: "fill ex_w1 ''a'' [VInt 70000] None
             = (Some (ValueError (FillPackFailed ''<H'' [VInt 70000])), ex_w1)"
    using h1 h2 by (simp add: fill_def Let_def)
  have w2: "ex_w1\<lparr>array := take 1 (array ex_w1) @ [2, 1] @ drop (1 + length [2, 1 :: byte]) (array ex_w1),
                  reserved := dict_pop (reserved ex_w1) (reserve_name None ''a'')\<rparr> = ex_w2"
    by (simp add: ex_w1_eq ex_w2_eq dict_pop_def reserve_name_def)
  show ?thesis
    using fill_atomic [OF h1 h2, of "[VInt 258]" "[2, 1]"] h3 f w2
    by (simp add: reserve_name_def)
qed

section \<open>Properties of the bit-field writer\<close>

lemma write_rejects_too_large:
  "2 ^ n \<le> x \<Longrightarrow>
   write_to_buffer bf buf x (int n) fm = (Inl (ValueError (BitValueTooLarge x (int n))), bf, buf)
   \<and> BitFieldWriter_write bf w x (int n) fm
       = (Some (ValueError (BitValueTooLarge x (int n))), bf, w)"
  by (simp add: write_to_buffer_def BitFieldWriter_write_def too_large_def)

text \<open>
  Claim C6. A value that does not fit in the declared bit count should make the write
  raise before any bit reaches the accumulator. The check \<open>value >= 2 ** bit_count\<close>
  does that for values that are too large (\<open>write_rejects_too_large\<close>), but it lets
  every negative value through: writing \<open>-1\<close> as a three-bit field returns normally, by
  \<open>write_to_buffer\<close> and by \<open>write\<close>, and leaves the text \<open>10-\<close> in the accumulator.
\<close>

theorem negative_bits_accepted:
  "write_to_buffer new_bits [] (- 1) 3 ''B''
     = (Inr [], \<lparr>bits_field = ''10-'', bits_fmt = ''B'', bits_offset = 0\<rparr>, [])
   \<and> BitFieldWriter_write new_bits ex_w0 (- 1) 3 ''B''
     = (None, \<lparr>bits_field = ''10-'', bits_fmt = ''B'', bits_offset = 0\<rparr>, ex_w0)"
  by code_simp

section \<open>Properties of the text helpers\<close>

text \<open>
  Claim C9. The terminator of a null-terminated text should be as wide as a character:
  two bytes for every UTF-16 encoding. \<open>read_chars_from_buffer\<close> looks for the prefix
  \<open>utf16le\<close> only, so with the encoding \<open>utf-16-be\<close> it reads one byte at a time and
  stops at the first zero byte: on the big-endian text \<open>A\<close>, the bytes 00 41 00 00, it
  returns the empty text and leaves the cursor at 1, where \<open>read_null_terminated_bytes\<close>
  returns the two bytes of the character and consumes all four.
\<close>

theorem utf16_be_single_byte_terminator:
  "read_chars_from_buffer \<lparr>data = [0, 0x41, 0, 0], cursor = 0\<rparr> None None True
       (Some ''utf-16-be'') True
     = (Inr (Decoded ''utf-16-be'' []), \<lparr>data = [0, 0x41, 0, 0], cursor = 1\<rparr>)
   \<and> read_null_terminated_bytes (new_reader [0, 0x41, 0, 0] LittleEndian None) (Some ''utf-16-be'')
     = (Inr (Decoded ''utf-16-be'' [0, 0x41]),
        \<lparr>default_byte_order = LittleEndian, long_varints = None,
          buffer = \<lparr>data = [0, 0x41, 0, 0], cursor = 4\<rparr>\<rparr>)"
  by code_simp

section \<open>Properties of the record engine\<close>

text \<open>
  Claim C1. Unpacking the packed bytes of a record without skip predicates should give
  the record back. \<open>to_writer\<close> flushes a partial bit group only when a field that is not
  a bit field follows, so a record that ends in a partial group is packed without that
  group's storage unit, although \<open>get_full_fmt\<close> and \<open>get_size\<close> count it: the record
  (a = 7, f = 5) of a byte and a three-bit field has size 2, packs to the single byte 07,
  and \<open>from_bytes\<close> on that byte raises.
\<close>

theorem trailing_bits_lost:
  "to_bytes ex_trailing_bits (ex_instance [(''a'', VInt 7), (''f'', VInt 5)] None)
       (Some LittleEndian) None
     = Inr [7]
   \<and> get_size ex_trailing_bits LittleEndian None = Inr 2
   \<and> from_bytes ex_trailing_bits (FromBytes [7]) (Some LittleEndian) None 1 = Inl StructError"
  by code_simp

text \<open>
  Claim C3. Packing or unpacking a \<open>varint\<close> field with the width flag unset should
  raise, and a resolved flag should select 8 or 4 bytes. \<open>to_writer\<close> and \<open>from_bytes\<close>
  resolve the format with the width flag of the writer or reader, and the writer and the
  reader they create themselves have the constructor's default \<open>True\<close>: the record
  (n = 1) packs to eight bytes with the flag unset and with the flag \<open>False\<close> alike, the
  eight bytes unpack with the flag unset, and four bytes do not unpack with the flag
  \<open>False\<close>.
\<close>

theorem varint_flag_ignored:
  "to_bytes ex_varint (ex_instance [(''n'', VInt 1)] None) None None = Inr [1, 0, 0, 0, 0, 0, 0, 0]
   \<and> to_bytes ex_varint (ex_instance [(''n'', VInt 1)] None) None (Some False)
       = Inr [1, 0, 0, 0, 0, 0, 0, 0]
   \<and> from_bytes ex_varint (FromBytes [1, 0, 0, 0, 0, 0, 0, 0]) None None 1
       = Inr (\<lparr>attrs = [(''n'', VInt 1)], byte_order = Some LittleEndian,
                self_long_varints = None, ident = 1\<rparr>,
              \<lparr>default_byte_order = LittleEndian, long_varints = Some True,
                buffer = \<lparr>data = [1, 0, 0, 0, 0, 0, 0, 0], cursor = 8\<rparr>\<rparr>)
   \<and> from_bytes ex_varint (FromBytes [1, 0, 0, 0]) None (Some False) 1 = Inl StructError"
  by code_simp

















text \<open>
  Claim C8. \<open>get_size\<close> is computed from the class's full format, the byte order and
  the width flag, and from nothing else: two classes with the same full format have the
  same size. With a \<open>v\<close> or \<open>V\<close> in the format and the flag unset it raises; with the flag
  set it is the size of the format in which every \<open>v\<close> and \<open>V\<close> is \<open>q\<close> and \<open>Q\<close>
  (8 bytes an item) when the flag is true, \<open>i\<close> and \<open>I\<close> (4 bytes an item) when it is
  false. For the byte orders without alignment that size is the sum, over the tokens of
  the resolved format, of repeat count times item size.
\<close>

theorem get_size_from_format:
  assumes "get_full_fmt c None None = Inr ff"
  shows "(get_full_fmt c' None None = Inr ff \<longrightarrow> get_size c' bo lv = get_size c bo lv)
       \<and> (CHR ''v'' \<in> set ff \<or> CHR ''V'' \<in> set ff \<longrightarrow>
            get_size c bo None = Inl (ValueError VarintsUnset))
       \<and> get_size c bo (Some True)
           = struct_calcsize
               (value_of bo @ replace_char CHR ''V'' CHR ''Q'' (replace_char CHR ''v'' CHR ''q'' ff))
       \<and> get_size c bo (Some False)
           = struct_calcsize
               (value_of bo @ replace_char CHR ''V'' CHR ''I'' (replace_char CHR ''v'' CHR ''i'' ff))
       \<and> (bo \<noteq> NativeAutoAligned
            \<and> tokens (replace_char CHR ''V'' CHR ''Q'' (replace_char CHR ''v'' CHR ''q'' ff)) None = Inr ts \<longrightarrow>
            get_size c bo (Some True) = Inr (\<Sum>(cnt, x)\<leftarrow>ts. count_of cnt * item_size x))
       \<and> (bo \<noteq> NativeAutoAligned
            \<and> tokens (replace_char CHR ''V'' CHR ''I'' (replace_char CHR ''v'' CHR ''i'' ff)) None = Inr ts' \<longrightarrow>
            get_size c bo (Some False) = Inr (\<Sum>(cnt, x)\<leftarrow>ts'. count_of cnt * item_size x))
       \<and> item_size CHR ''q'' = 8 \<and> item_size CHR ''Q'' = 8
       \<and> item_size CHR ''i'' = 4 \<and> item_size CHR ''I'' = 4"
proof -
  have t: "get_size c bo (Some True)
           = struct_calcsize
               (value_of bo @ replace_char CHR ''V'' CHR ''Q'' (replace_char CHR ''v'' CHR ''q'' ff))"
    using assms
    by (auto simp: get_size_def Let_def replace_char_append replace_char_value_of
        replace_char_absent)
  have f: "get_size c bo (Some False)
           = struct_calcsize
               (value_of bo @ replace_char CHR ''V'' CHR ''I'' (replace_char CHR ''v'' CHR ''i'' ff))"
    using assms
    by (auto simp: get_size_def Let_def replace_char_append replace_char_value_of
        replace_char_absent)
  have n: "CHR ''v'' \<in> set ff \<or> CHR ''V'' \<in> set ff \<longrightarrow>
            get_size c bo None = Inl (ValueError VarintsUnset)"
    using assms by (auto simp: get_size_def Let_def)
  have s: "get_full_fmt c' None None = Inr ff \<longrightarrow> get_size c' bo lv = get_size c bo lv"
    using assms by (simp add: get_size_def)
  have u: "bo \<noteq> NativeAutoAligned \<Longrightarrow> tokens body None = Inr us \<Longrightarrow>
           struct_calcsize (value_of bo @ body) = Inr (\<Sum>(cnt, x)\<leftarrow>us. count_of cnt * item_size x)"
    for body us
    by (simp add: struct_calcsize_def split_mode_value_of size_tokens_unaligned)
  have i: "item_size CHR ''q'' = 8 \<and> item_size CHR ''Q'' = 8
       \<and> item_size CHR ''i'' = 4 \<and> item_size CHR ''I'' = 4"
    by (simp add: item_size_def code_size_def)
  show ?thesis using t f n s u i by simp
qed

theorem get_size_from_format_witness:
  "get_full_fmt ex_varint None None = Inr ''v''
   \<and> get_size ex_varint LittleEndian None = Inl (ValueError VarintsUnset)
   \<and> get_size ex_varint LittleEndian (Some True) = Inr 8
   \<and> get_size ex_varint LittleEndian (Some False) = Inr 4"
proof -
  have h: "get_full_fmt ex_varint None None = Inr ''v''" by code_simp
  have q: "tokens ''q'' None = Inr [(None, CHR ''q'')]" by code_simp
  have i: "tokens ''i'' None = Inr [(None, CHR ''i'')]" by code_simp
  have s: "struct_calcsize ''<q'' = Inr 8" "struct_calcsize ''<i'' = Inr 4" by code_simp+
  show ?thesis
    using get_size_from_format [OF h, of ex_varint LittleEndian None "[(None, CHR ''q'')]"
        "[(None, CHR ''i'')]"] h q i s
    by (simp add: replace_char_def count_of_def)
qed

end
